theory Spec2Isabelle
  imports Main
begin

section \<open>Strings\<close>

text \<open>
  Strings are byte sequences (\<open>char list\<close>); a character outside ASCII stands as its
  UTF-8 bytes.  The string methods the scorer calls are written out: \<open>startsWith\<close>,
  \<open>endsWith\<close>, \<open>includes\<close>, \<open>replace\<close> with a string pattern (first occurrence
  only), \<open>join\<close>, and \<open>toLowerCase\<close>, which maps the ASCII letters and leaves every
  other byte as it is.
\<close>

fun startsWith :: "string \<Rightarrow> string \<Rightarrow> bool" where
  "startsWith s [] = True"
| "startsWith [] (p # ps) = False"
| "startsWith (c # cs) (p # ps) = (c = p \<and> startsWith cs ps)"

definition endsWith :: "string \<Rightarrow> string \<Rightarrow> bool" where
  "endsWith s p = startsWith (rev s) (rev p)"

fun strIncludes :: "string \<Rightarrow> string \<Rightarrow> bool" where
  "strIncludes [] p = (p = [])"
| "strIncludes (c # cs) p = (startsWith (c # cs) p \<or> strIncludes cs p)"

fun replaceFirst :: "string \<Rightarrow> string \<Rightarrow> string \<Rightarrow> string" where
  "replaceFirst [] pat rep = (if pat = [] then rep else [])"
| "replaceFirst (c # cs) pat rep =
     (if startsWith (c # cs) pat then rep @ drop (length pat) (c # cs)
      else c # replaceFirst cs pat rep)"

fun join :: "string \<Rightarrow> string list \<Rightarrow> string" where
  "join sep [] = []"
| "join sep [x] = x"
| "join sep (x # y # ys) = x @ sep @ join sep (y # ys)"

definition isUpper :: "char \<Rightarrow> bool" where
  "isUpper c = (65 \<le> (of_char c :: nat) \<and> (of_char c :: nat) \<le> 90)"

definition toLowerChar :: "char \<Rightarrow> char" where
  "toLowerChar c = (if isUpper c then char_of ((of_char c :: nat) + 32) else c)"

definition toLowerCase :: "string \<Rightarrow> string" where
  "toLowerCase s = map toLowerChar s"

text \<open>\<open>textContains\<close>: the keywords found in the text, compared in lower case.\<close>

definition textContains :: "string \<Rightarrow> string list \<Rightarrow> string list" where
  "textContains txt keywords =
     filter (\<lambda>k. strIncludes (toLowerCase txt) (toLowerCase k)) keywords"

section \<open>The data model\<close>

datatype FrictionType = voluntary | regulatory | none

record SubScore =
  name :: string
  maxPoints :: int
  score :: int
  findings :: "string list"
  frictionType :: "FrictionType option"
  frictionNote :: "string option"

record CategoryScore =
  name :: string
  description :: string
  maxPoints :: int
  score :: int
  subScores :: "SubScore list"

record FrictionSummary =
  voluntaryFriction :: "string list"
  regulatoryFriction :: "string list"
  agentReadyPending :: bool

record ScoringResult =
  id :: string
  url :: string
  timestamp :: string
  totalScore :: int
  maxScore :: int
  grade :: string
  categories :: "CategoryScore list"
  frictionSummary :: FrictionSummary
  crawledPages :: "string list"
  errors :: "string list"

text \<open>
  The page map is a JavaScript \<open>Map\<close>: insertion ordered, and \<open>set\<close> on a key that is
  present replaces the value where it stands.
\<close>

type_synonym Pages = "(string \<times> string) list"

fun Map_set :: "Pages \<Rightarrow> string \<Rightarrow> string \<Rightarrow> Pages" where
  "Map_set [] k v = [(k, v)]"
| "Map_set ((k', v') # ps) k v =
     (if k' = k then (k, v) # ps else (k', v') # Map_set ps k v)"

definition Map_has :: "Pages \<Rightarrow> string \<Rightarrow> bool" where
  "Map_has ps k = (k \<in> set (map fst ps))"

definition Map_size :: "Pages \<Rightarrow> nat" where
  "Map_size ps = length ps"

text \<open>The three mutations an evaluator applies to its sub-score.\<close>

definition newSubScore :: "string \<Rightarrow> int \<Rightarrow> int \<Rightarrow> FrictionType option \<Rightarrow> SubScore" where
  "newSubScore n m s f =
     \<lparr>SubScore.name = n, maxPoints = m, score = s, findings = [], frictionType = f,
      frictionNote = None\<rparr>"

definition setScore :: "int \<Rightarrow> SubScore \<Rightarrow> SubScore" where
  "setScore n s = s\<lparr>SubScore.score := n\<rparr>"

definition push :: "string \<Rightarrow> SubScore \<Rightarrow> SubScore" where
  "push f s = s\<lparr>findings := findings s @ [f]\<rparr>"

definition setFriction :: "FrictionType \<Rightarrow> string \<Rightarrow> SubScore \<Rightarrow> SubScore" where
  "setFriction t n s = s\<lparr>frictionType := Some t, frictionNote := Some n\<rparr>"

definition emDash :: string where
  "emDash = [CHR 0xE2, CHR 0x80, CHR 0x94]"

section \<open>The rubric: evaluators that read the corpus only\<close>

text \<open>
  Each evaluator is a block of \<open>scoreUrl\<close> that fills one sub-score from the corpus:
  \<open>allText\<close> (the page bodies, joined and lower-cased), \<open>allLinksText\<close> (the extracted
  links, joined and lower-cased) and the page map.  \<open>hasAny\<close> and \<open>linkHasAny\<close> are both
  \<open>textContains\<close>, on the one text and on the other.
\<close>

definition disc_api :: "Pages \<Rightarrow> string \<Rightarrow> string \<Rightarrow> SubScore" where
  "disc_api pages allText allLinksText =
     (let s0 = newSubScore ''Public API with docs'' 3 0 None;
          apiIndicators = textContains allText
            [''api documentation'', ''api reference'', ''api docs'', ''developer docs'',
             ''rest api'', ''graphql api''];
          apiLinks = textContains allLinksText
            [''/api'', ''/docs'', ''/developer'', ''/reference'', ''/api-docs''];
          s1 = (if apiIndicators \<noteq> []
                then push (''Found API doc references: '' @ join '', '' apiIndicators)
                       (setScore (SubScore.score s0 + 2) s0)
                else s0);
          s2 = (if apiLinks \<noteq> []
                then push ''Found API-related links''
                       (setScore (min 3 (SubScore.score s1 + 1)) s1)
                else s1);
          s3 = (if Map_has pages ''/docs'' \<or> Map_has pages ''/api''
                   \<or> Map_has pages ''/api-docs'' \<or> Map_has pages ''/documentation''
                then push ''Dedicated docs/API page accessible''
                       (setScore (min 3 (SubScore.score s2 + 1)) s2)
                else s2)
      in if SubScore.score s3 = 0 then push ''No public API documentation detected'' s3
         else s3)"

definition disc_pricing :: "Pages \<Rightarrow> string \<Rightarrow> SubScore" where
  "disc_pricing pages allText =
     (let s0 = newSubScore ''Machine-readable pricing'' 3 0 None;
          pricingPage = Map_has pages ''/pricing'';
          pricingKeywords = textContains allText
            [''pricing'', ''price'', ''per month'', ''/mo'', ''free tier'', ''free plan'',
             ''pay as you go'', ''usage-based''];
          structuredPricing = textContains allText
            [''application/ld+json'', ''schema.org/offer'', ''schema.org/product'',
             ''itemtype='' @ [CHR 0x22] @ ''http''];
          s1 = (if pricingPage
                then push ''Pricing page found'' (setScore (SubScore.score s0 + 1) s0)
                else s0);
          s2 = (if pricingKeywords \<noteq> []
                then push (''Pricing keywords: '' @ join '', '' (take 3 pricingKeywords))
                       (setScore (min 2 (SubScore.score s1 + 1)) s1)
                else s1);
          s3 = (if structuredPricing \<noteq> []
                then push ''Structured pricing data (schema.org) detected'' (setScore 3 s2)
                else s2)
      in if SubScore.score s3 = 0 then push ''No machine-readable pricing detected'' s3
         else s3)"

definition disc_directories :: "string \<Rightarrow> SubScore" where
  "disc_directories allText =
     (let s0 = newSubScore ''Listed in agent directories'' 2 0 None;
          dirKeywords = textContains allText
            [''rapidapi'', ''programmableweb'', ''api marketplace'', ''api directory'',
             ''agent directory'', ''mcp server'', ''agent protocol'']
      in if dirKeywords \<noteq> []
         then push (''Directory mentions: '' @ join '', '' dirKeywords)
                (setScore (min 2 (int (length dirKeywords))) s0)
         else push
           ''No agent/API directory listings detected (hard to verify automatically)'' s0)"

definition purch_signup :: "string \<Rightarrow> SubScore" where
  "purch_signup allText =
     (let s0 = newSubScore ''Programmatic signup'' 2 0 (Some none);
          signupIndicators = textContains allText
            [''api key'', ''get started'', ''sign up'', ''create account'', ''register'',
             ''get api key'', ''instant access''];
          noHumanSteps = textContains allText
            [''no credit card'', ''instant'', ''self-serve'', ''self-service'', ''automatic''];
          kycIndicators = textContains allText
            [''kyc'', ''know your customer'', ''identity verification'', ''id verification'',
             ''aml'', ''anti-money laundering'', ''verify your identity'', ''government id'',
             ''ssn'', ''passport'', ''drivers license'', ''proof of address'',
             ''accredited investor''];
          contactSalesSignup = textContains allText
            [''contact sales'', ''request demo'', ''book a demo'', ''talk to sales'',
             ''schedule a call'', ''request access'']
      in if kycIndicators \<noteq> []
         then push
                (''Regulatory friction (half penalty): '' @ join '', '' (take 3 kycIndicators))
                (setFriction regulatory
                   (''KYC/identity verification required by regulation '' @ emDash
                      @ '' not a design choice'')
                   (setScore 1 s0))
         else if contactSalesSignup \<noteq> [] \<and> signupIndicators = []
         then push (''Voluntary friction: '' @ join '', '' (take 2 contactSalesSignup))
                (setFriction voluntary
                   (''Manual onboarding by design choice '' @ emDash @ '' blocks agents'')
                   (setScore 0 s0))
         else if noHumanSteps \<noteq> []
         then push (''Self-serve indicators: '' @ join '', '' (take 2 noHumanSteps))
                (setScore 2 s0)
         else if signupIndicators \<noteq> []
         then push (''Signup indicators: '' @ join '', '' (take 3 signupIndicators))
                (setScore 1 s0)
         else push ''No programmatic signup flow detected'' s0)"

definition purch_captcha :: "string \<Rightarrow> SubScore" where
  "purch_captcha allText =
     (let s0 = newSubScore ''No CAPTCHA'' 2 2 (Some none);
          captchaIndicators = textContains allText
            [''recaptcha'', ''hcaptcha'', ''captcha'', ''g-recaptcha'', ''cf-turnstile'',
             ''turnstile'']
      in if captchaIndicators \<noteq> []
         then push
                (''CAPTCHA detected (voluntary friction): '' @ join '', '' captchaIndicators)
                (setFriction voluntary
                   (''CAPTCHA is a design choice '' @ emDash @ '' blocks agents entirely'')
                   (setScore 0 s0))
         else push ''No CAPTCHA detected on crawled pages'' s0)"

definition purch_billing :: "string \<Rightarrow> SubScore" where
  "purch_billing allText =
     (let s0 = newSubScore ''API-based / usage-based billing'' 2 0 None;
          billingIndicators = textContains allText
            [''usage-based'', ''pay per use'', ''pay as you go'', ''per request'', ''per call'',
             ''metered'', ''per api call'', ''per token'']
      in if billingIndicators \<noteq> []
         then push (''Usage-based billing: '' @ join '', '' (take 2 billingIndicators))
                (setScore 2 s0)
         else (let subIndicators = textContains allText
                     [''subscription'', ''monthly'', ''annual'', ''enterprise'']
               in if subIndicators \<noteq> []
                  then push ''Traditional subscription billing detected'' (setScore 1 s0)
                  else push ''No billing model detected'' s0))"

definition purch_crypto :: "string \<Rightarrow> SubScore" where
  "purch_crypto allText =
     (let s0 = newSubScore ''Accepts crypto/stablecoin'' 2 0 None;
          cryptoIndicators = textContains allText
            [''crypto'', ''cryptocurrency'', ''bitcoin'', ''ethereum'', ''usdc'', ''usdt'',
             ''stablecoin'', ''web3'', ''wallet'']
      in if cryptoIndicators \<noteq> []
         then push (''Crypto mentions: '' @ join '', '' (take 3 cryptoIndicators))
                (setScore 2 s0)
         else push ''No cryptocurrency payment options detected'' s0)"

definition purch_protocols :: "string \<Rightarrow> SubScore" where
  "purch_protocols allText =
     (let s0 = newSubScore ''Supports x402, UCP, or AP2'' 2 0 None;
          protocolIndicators = textContains allText
            [''x402'', ''ucp'', ''agent protocol'', ''ap2'', ''402 payment'', ''http 402'',
             ''machine-payable'']
      in if protocolIndicators \<noteq> []
         then push (''Agent payment protocols: '' @ join '', '' protocolIndicators)
                (setScore 2 s0)
         else push ''No agent payment protocols (x402/UCP/AP2) detected'' s0)"

definition int_mcp :: "string \<Rightarrow> SubScore" where
  "int_mcp allText =
     (let s0 = newSubScore ''MCP or A2A support'' 3 0 None;
          mcpIndicators = textContains allText
            [''model context protocol'', ''mcp'', ''agent-to-agent'', ''a2a'', ''mcp server'',
             ''mcp tool'', ''function calling'']
      in if mcpIndicators \<noteq> []
         then push (''MCP/A2A indicators: '' @ join '', '' (take 3 mcpIndicators))
                (setScore 3 s0)
         else push ''No MCP or A2A support detected'' s0)"

definition int_structured :: "string \<Rightarrow> SubScore" where
  "int_structured allText =
     (let s0 = newSubScore ''Structured output (JSON)'' 3 0 None;
          jsonIndicators = textContains allText
            [''json response'', ''json api'', ''application/json'', ''rest api'', ''graphql'',
             ''json output'', ''json format'', ''returns json''];
          sdkIndicators = textContains allText
            [''sdk'', ''client library'', ''npm install'', ''pip install'', ''gem install'',
             ''nuget''];
          s1 = (if jsonIndicators \<noteq> []
                then push (''JSON/structured output: '' @ join '', '' (take 3 jsonIndicators))
                       (setScore (SubScore.score s0 + 2) s0)
                else s0);
          s2 = (if sdkIndicators \<noteq> []
                then push (''SDK/client libraries: '' @ join '', '' (take 2 sdkIndicators))
                       (setScore (min 3 (SubScore.score s1 + 1)) s1)
                else s1)
      in if SubScore.score s2 = 0 then push ''No structured JSON output detected'' s2
         else s2)"

definition int_sandbox :: "string \<Rightarrow> SubScore" where
  "int_sandbox allText =
     (let s0 = newSubScore ''Sandbox/test environment'' 2 0 None;
          sandboxIndicators = textContains allText
            [''sandbox'', ''test mode'', ''test environment'', ''playground'', ''try it'',
             ''interactive'', ''api console'', ''api explorer'']
      in if sandboxIndicators \<noteq> []
         then push (''Sandbox/test: '' @ join '', '' (take 3 sandboxIndicators))
                (setScore 2 s0)
         else push ''No sandbox or test environment detected'' s0)"

definition int_ratelimits :: "string \<Rightarrow> SubScore" where
  "int_ratelimits allText =
     (let s0 = newSubScore ''Clear rate limits & error handling'' 2 0 None;
          rlIndicators = textContains allText
            [''rate limit'', ''rate-limit'', ''throttl'', ''429'', ''quota'', ''requests per'',
             ''rpm'', ''rps'', ''error code'', ''error handling'', ''status code'']
      in if rlIndicators \<noteq> []
         then push (''Rate limit/error docs: '' @ join '', '' (take 3 rlIndicators))
                (setScore 2 s0)
         else push ''No rate limit documentation detected'' s0)"

definition trust_pricing :: "string \<Rightarrow> SubScore" where
  "trust_pricing allText =
     (let s0 = newSubScore ''Transparent pricing'' 3 0 None;
          contactSales = textContains allText
            [''contact sales'', ''contact us for pricing'', ''request a quote'',
             ''custom pricing'', ''talk to sales''];
          transparentPricing = textContains allText
            [''$'', [CHR 0xE2, CHR 0x82, CHR 0xAC], [CHR 0xC2, CHR 0xA3], ''free'',
             ''per month'', ''/mo'', ''/year'', ''starting at'']
      in if contactSales \<noteq> [] \<and> transparentPricing = []
         then push (''Opaque pricing: '' @ join '', '' contactSales) (setScore 0 s0)
         else if transparentPricing \<noteq> []
         then (let s1 = push ''Public pricing found''
                          (setScore (if contactSales \<noteq> [] then 2 else 3) s0)
               in if contactSales \<noteq> []
                  then push ''Also has 'contact sales' (likely enterprise tier)'' s1
                  else s1)
         else push ''No pricing information detected'' s0)"

definition trust_spend :: "string \<Rightarrow> SubScore" where
  "trust_spend allText =
     (let s0 = newSubScore ''Spend controls and usage caps'' 3 0 None;
          spendIndicators = textContains allText
            [''spend limit'', ''usage cap'', ''budget'', ''spending limit'', ''cost control'',
             ''billing alert'', ''usage alert'', ''hard limit'', ''soft limit'']
      in if spendIndicators \<noteq> []
         then push (''Spend controls: '' @ join '', '' (take 3 spendIndicators))
                (setScore 3 s0)
         else push ''No spend controls or usage caps detected'' s0)"

definition trust_sla :: "Pages \<Rightarrow> string \<Rightarrow> SubScore" where
  "trust_sla pages allText =
     (let s0 = newSubScore ''SLA / uptime guarantees'' 2 0 None;
          slaIndicators = textContains allText
            [''sla'', ''uptime'', ''99.9'', ''99.99'', ''availability'', ''service level'',
             ''status page''];
          statusPage = (Map_has pages ''/status'' \<or> Map_has pages ''/sla'')
      in if slaIndicators \<noteq> [] \<or> statusPage
         then (let s1 = setScore 2 s0;
                   s2 = (if statusPage then push ''Status/SLA page accessible'' s1 else s1)
               in if slaIndicators \<noteq> []
                  then push (''SLA mentions: '' @ join '', '' (take 3 slaIndicators)) s2
                  else s2)
         else push ''No SLA or uptime guarantees detected'' s0)"

definition trust_tos :: "Pages \<Rightarrow> string \<Rightarrow> SubScore" where
  "trust_tos pages allText =
     (let s0 = newSubScore ''ToS allows automated/agent usage'' 2 0 None;
          tosPage = (Map_has pages ''/terms'' \<or> Map_has pages ''/tos''
                     \<or> Map_has pages ''/terms-of-service'' \<or> Map_has pages ''/legal'');
          automatedUse = textContains allText
            [''automated'', ''programmatic access'', ''bot'', ''machine'', ''agent'',
             ''non-human''];
          antiBot = textContains allText
            [''no automated'', ''prohibit automated'', ''no bots'', ''no scraping'',
             ''human only''];
          s1 = (if tosPage
                then push ''Terms of Service page found'' (setScore (SubScore.score s0 + 1) s0)
                else s0);
          s2 = (if automatedUse \<noteq> [] \<and> antiBot = []
                then push ''Appears to allow automated usage'' (setScore 2 s1)
                else if antiBot \<noteq> []
                then push (''May restrict automated use: '' @ join '', '' antiBot)
                       (setScore 0 s1)
                else s1)
      in if SubScore.score s2 = 0 \<and> \<not> tosPage
         then push ''No Terms of Service found to evaluate'' s2
         else s2)"

section \<open>The platform\<close>

text \<open>
  What the scorer calls and the repository does not define is a parameter of the model:
  the global \<open>fetch\<close> (its outcome may depend on everything fetched before, so it
  threads a world \<open>'w\<close>; a rejected promise, an abort by the timer and a body that cannot
  be read are all \<open>Rejected\<close>), the \<open>URL\<close> constructor with and without a base (\<open>None\<close>
  when it throws), the \<open>href\<close> attributes cheerio selects with \<open>a[href]\<close>, and the
  sources of the identifier and of the timestamp.  Of a parsed URL the scorer reads
  \<open>href\<close>, \<open>origin\<close>, \<open>hostname\<close> and \<open>pathname\<close>.  Waiting (the retry back-off and the
  pause between batches) changes no value and is left out.
\<close>

datatype FetchOutcome = Response string nat | Rejected

record URL =
  href :: string
  origin :: string
  hostname :: string
  pathname :: string

record 'w platform =
  fetch :: "string \<Rightarrow> nat \<Rightarrow> 'w \<Rightarrow> FetchOutcome \<times> 'w"
  newURL :: "string \<Rightarrow> URL option"
  newURLbase :: "string \<Rightarrow> string \<Rightarrow> URL option"
  anchorHrefs :: "string \<Rightarrow> string list"
  randomUUID :: "'w \<Rightarrow> string \<times> 'w"
  toISOString :: "'w \<Rightarrow> string \<times> 'w"

datatype ScoreError = Error string | TypeError

section \<open>The fetcher and the link extractor\<close>

text \<open>
  \<open>fetchPage\<close> tries \<open>attempt = 0, \<dots>, retries\<close>; the first response of any status is
  returned, \<open>null\<close> after the last rejection.
\<close>

function fetchPage_loop ::
  "'w platform \<Rightarrow> string \<Rightarrow> nat \<Rightarrow> nat \<Rightarrow> nat \<Rightarrow> 'w \<Rightarrow> (string \<times> nat) option \<times> 'w" where
  "fetchPage_loop env u timeout retries attempt w =
     (if attempt \<le> retries
      then (case fetch env u timeout w of
              (Response html status, w') \<Rightarrow> (Some (html, status), w')
            | (Rejected, w') \<Rightarrow> fetchPage_loop env u timeout retries (attempt + 1) w')
      else (None, w))"
  by pat_completeness auto
termination
  by (relation "measure (\<lambda>(env, u, timeout, retries, attempt, w). Suc retries - attempt)") auto

definition fetchPage ::
  "'w platform \<Rightarrow> string \<Rightarrow> nat \<Rightarrow> nat \<Rightarrow> 'w \<Rightarrow> (string \<times> nat) option \<times> 'w" where
  "fetchPage env u timeout retries w = fetchPage_loop env u timeout retries 0 w"

text \<open>The defaults of \<open>fetchPage\<close>'s parameters.\<close>

definition default_timeout :: nat where
  "default_timeout = 12000"

definition default_retries :: nat where
  "default_retries = 2"

definition findLinks :: "'w platform \<Rightarrow> string \<Rightarrow> string \<Rightarrow> string list" where
  "findLinks env html baseUrl =
     concat (map (\<lambda>h. if h = [] then []
                       else (case newURLbase env h baseUrl of
                               None \<Rightarrow> []
                             | Some u \<Rightarrow> [href u]))
                 (anchorHrefs env html))"

section \<open>The relevance filter\<close>

text \<open>
  The regular expressions of \<open>isRelevantUrl\<close>, on the lower-cased path.  A word
  character is \<open>[A-Za-z0-9_]\<close>.  Every alternative of every pattern begins and ends
  with a letter, so \<open>\b\<close> before an alternative holds where the character before is
  not a word character (or there is none), and \<open>\b\<close> after it where the character
  after is not a word character (or there is none); the optional characters of
  \<open>docs?\<close>, \<open>get-?started\<close>, \<open>sign-?up\<close> and \<open>quick-?start\<close> are written as two
  alternatives.
\<close>

definition isWordChar :: "char \<Rightarrow> bool" where
  "isWordChar c =
     (let n = (of_char c :: nat)
      in (48 \<le> n \<and> n \<le> 57) \<or> (65 \<le> n \<and> n \<le> 90) \<or> (97 \<le> n \<and> n \<le> 122) \<or> n = 95)"

definition matchThenBoundary :: "string \<Rightarrow> string \<Rightarrow> bool" where
  "matchThenBoundary s w =
     (startsWith s w \<and> (case drop (length w) s of [] \<Rightarrow> True | c # cs \<Rightarrow> \<not> isWordChar c))"

fun occursThenBoundary :: "string \<Rightarrow> string \<Rightarrow> bool" where
  "occursThenBoundary [] w = matchThenBoundary [] w"
| "occursThenBoundary (c # cs) w = (matchThenBoundary (c # cs) w \<or> occursThenBoundary cs w)"

fun occursWordFrom :: "bool \<Rightarrow> string \<Rightarrow> string \<Rightarrow> bool" where
  "occursWordFrom b [] w = (b \<and> matchThenBoundary [] w)"
| "occursWordFrom b (c # cs) w =
     ((b \<and> matchThenBoundary (c # cs) w) \<or> occursWordFrom (\<not> isWordChar c) cs w)"

definition occursWord :: "string \<Rightarrow> string \<Rightarrow> bool" where
  "occursWord s w = occursWordFrom True s w"

definition RELEVANT_PATTERNS :: "string list list" where
  "RELEVANT_PATTERNS =
     [[''api'', ''doc'', ''docs'', ''documentation'', ''developer'', ''reference'', ''sdk''],
      [''pric'', ''plan'', ''billing'', ''subscription'', ''cost''],
      [''terms'', ''tos'', ''legal'', ''privacy'', ''policy'', ''compliance''],
      [''integrat'', ''plugin'', ''marketplace'', ''partner'', ''connect''],
      [''security'', ''sla'', ''status'', ''uptime'', ''trust''],
      [''sandbox'', ''playground'', ''test'', ''demo'', ''trial'', ''getstarted'',
       ''get-started''],
      [''signup'', ''sign-up'', ''register'', ''onboard'', ''quickstart'', ''quick-start''],
      [''openapi'', ''swagger'', ''graphql'', ''rest'', ''webhook''],
      [''kyc'', ''identity'', ''verif'', ''aml'', ''comply'']]"

definition MAX_CRAWL_PAGES :: nat where
  "MAX_CRAWL_PAGES = 30"

definition hasMediaExtension :: "string \<Rightarrow> bool" where
  "hasMediaExtension path =
     list_ex (\<lambda>e. endsWith path (CHR ''.'' # e))
       [''png'', ''jpg'', ''jpeg'', ''gif'', ''svg'', ''css'', ''js'', ''woff'', ''ico'', ''pdf'',
        ''mp4'', ''webm'']"

definition hasNonProductSegment :: "string \<Rightarrow> bool" where
  "hasNonProductSegment path =
     list_ex (\<lambda>w. occursThenBoundary path (CHR ''/'' # w))
       [''blog'', ''press'', ''news'', ''careers'', ''jobs'', ''about-us'', ''team'',
        ''contact-us'', ''events'', ''podcast'', ''webinar'']"

text \<open>\<open>None\<close>: the \<open>URL\<close> constructor threw.\<close>

definition isRelevantUrl :: "'w platform \<Rightarrow> string \<Rightarrow> bool option" where
  "isRelevantUrl env u =
     (case newURL env u of
        None \<Rightarrow> None
      | Some parsed \<Rightarrow>
          (let path = toLowerCase (pathname parsed)
           in if hasMediaExtension path then Some False
              else if hasNonProductSegment path then Some False
              else Some (list_ex (\<lambda>p. list_ex (occursWord path) p) RELEVANT_PATTERNS)))"

section \<open>The crawl\<close>

definition SEED_PATHS :: "string list" where
  "SEED_PATHS =
     ['''', ''/docs'', ''/api'', ''/pricing'', ''/developers'', ''/developer'',
      ''/api-docs'', ''/documentation'', ''/swagger'', ''/openapi'',
      ''/terms'', ''/tos'', ''/terms-of-service'', ''/legal'',
      ''/sla'', ''/status'', ''/security'',
      ''/sandbox'', ''/playground'', ''/test'',
      ''/integrations'', ''/plugins'', ''/marketplace'']"

definition SUBDOMAIN_PREFIXES :: "string list" where
  "SUBDOMAIN_PREFIXES = [''docs'', ''developer'', ''developers'', ''api'', ''status'']"

definition BATCH_SIZE :: nat where
  "BATCH_SIZE = 5"

text \<open>\<open>Array.prototype.slice\<close> with both arguments given.\<close>

definition slice :: "'a list \<Rightarrow> int \<Rightarrow> int \<Rightarrow> 'a list" where
  "slice xs b e =
     (let n = int (length xs);
          b' = (if b < 0 then max (n + b) 0 else min b n);
          e' = (if e < 0 then max (n + e) 0 else min e n)
      in take (nat (e' - b')) (drop (nat b') xs))"

text \<open>\<open>replace(/^www\./, "")\<close> and \<open>replace(/\/$/, "")\<close>.\<close>

definition stripWww :: "string \<Rightarrow> string" where
  "stripWww h = (if startsWith h ''www.'' then drop 4 h else h)"

definition stripTrailingSlash :: "string \<Rightarrow> string" where
  "stripTrailingSlash p = (if p \<noteq> [] \<and> last p = CHR ''/'' then butlast p else p)"

text \<open>
  The filter that builds \<open>uniqueSeeds\<close>: a seed not yet visited is kept and marked
  visited.  The result is the kept seeds and the visited set (a list, read for
  membership only).
\<close>

fun uniqueSeedsOf :: "string list \<Rightarrow> string list \<Rightarrow> string list \<times> string list" where
  "uniqueSeedsOf [] visited = ([], visited)"
| "uniqueSeedsOf (u # us) visited =
     (if u \<in> set visited then uniqueSeedsOf us visited
      else (case uniqueSeedsOf us (visited @ [u]) of
              (kept, visited') \<Rightarrow> (u # kept, visited')))"

text \<open>
  One batch: \<open>fetchPage\<close> with its default timeout and retries on every URL of the
  batch; the results come in the order of the batch.
\<close>

fun fetchBatch ::
  "'w platform \<Rightarrow> string list \<Rightarrow> 'w \<Rightarrow> (string \<times> (string \<times> nat) option) list \<times> 'w" where
  "fetchBatch env [] w = ([], w)"
| "fetchBatch env (u # us) w =
     (case fetchPage env u default_timeout default_retries w of
        (result, w1) \<Rightarrow>
          (case fetchBatch env us w1 of
             (results, w2) \<Rightarrow> ((u, result) # results, w2)))"

text \<open>
  Phase 1 records a batch.  A page whose URL starts with the origin is keyed by its
  path, any other by its URL.  The \<open>URL\<close> constructor stands outside every \<open>try\<close>
  here, so its exception ends the run.
\<close>

fun recordSeeds ::
  "'w platform \<Rightarrow> string \<Rightarrow> (string \<times> (string \<times> nat) option) list \<Rightarrow> Pages \<times> string list
     \<Rightarrow> ScoreError + (Pages \<times> string list)" where
  "recordSeeds env orig [] st = Inr st"
| "recordSeeds env orig ((fullUrl, None) # rest) st = recordSeeds env orig rest st"
| "recordSeeds env orig ((fullUrl, Some (html, status)) # rest) (pgs, crawled) =
     (if status < 400
      then (if startsWith fullUrl orig
            then (case newURL env fullUrl of
                    None \<Rightarrow> Inl TypeError
                  | Some parsed \<Rightarrow>
                      recordSeeds env orig rest
                        (Map_set pgs (if pathname parsed = [] then ''/'' else pathname parsed)
                           html,
                         crawled @ [fullUrl]))
            else recordSeeds env orig rest (Map_set pgs fullUrl html, crawled @ [fullUrl]))
      else recordSeeds env orig rest (pgs, crawled))"

function seedLoop ::
  "'w platform \<Rightarrow> string \<Rightarrow> string list \<Rightarrow> nat \<Rightarrow> Pages \<times> string list \<Rightarrow> 'w
     \<Rightarrow> ScoreError + ((Pages \<times> string list) \<times> 'w)" where
  "seedLoop env orig uniqueSeeds i st w =
     (if i < length uniqueSeeds
      then (case fetchBatch env (slice uniqueSeeds (int i) (int i + int BATCH_SIZE)) w of
              (results, w') \<Rightarrow>
                (case recordSeeds env orig results st of
                   Inl e \<Rightarrow> Inl e
                 | Inr st' \<Rightarrow> seedLoop env orig uniqueSeeds (i + BATCH_SIZE) st' w'))
      else Inr (st, w))"
  by pat_completeness auto
termination
  by (relation "measure (\<lambda>(env, orig, uniqueSeeds, i, st, w). length uniqueSeeds - i)")
     (auto simp: BATCH_SIZE_def)

text \<open>
  Phase 2, one link: \<open>None\<close> when the link is dropped (also when a \<open>URL\<close> constructor
  throws inside the \<open>try\<close>), the normalized URL when it is kept.
\<close>

definition discoverLink :: "'w platform \<Rightarrow> string \<Rightarrow> string list \<Rightarrow> string \<Rightarrow> string option" where
  "discoverLink env baseDomain visited link =
     (case newURL env link of
        None \<Rightarrow> None
      | Some parsed \<Rightarrow>
          (let linkDomain = stripWww (hostname parsed)
           in if \<not> endsWith linkDomain baseDomain then None
              else (let normalized = origin parsed @ stripTrailingSlash (pathname parsed)
                    in if normalized \<in> set visited then None
                       else (case isRelevantUrl env normalized of
                               Some True \<Rightarrow> Some normalized
                             | Some False \<Rightarrow> None
                             | None \<Rightarrow> None))))"

definition discoveredUrlsOf ::
  "'w platform \<Rightarrow> string \<Rightarrow> string \<Rightarrow> string list \<Rightarrow> Pages \<Rightarrow> string list" where
  "discoveredUrlsOf env orig baseDomain visited pgs =
     concat (map (\<lambda>(k, html). List.map_filter (discoverLink env baseDomain visited)
                                (findLinks env html orig))
                 pgs)"

text \<open>\<open>[...new Set(xs)]\<close>: the first occurrence of every element, in order.\<close>

fun uniqueFrom :: "string list \<Rightarrow> string list \<Rightarrow> string list" where
  "uniqueFrom seen [] = []"
| "uniqueFrom seen (x # xs) =
     (if x \<in> set seen then uniqueFrom seen xs else x # uniqueFrom (seen @ [x]) xs)"

definition uniqueDiscoveredOf :: "string list \<Rightarrow> Pages \<Rightarrow> string list" where
  "uniqueDiscoveredOf discoveredUrls pgs =
     slice (uniqueFrom [] discoveredUrls) 0 (int MAX_CRAWL_PAGES - int (Map_size pgs))"

text \<open>
  Phase 3 records a batch: it stops at the first result that finds the page map
  full, and keys every page by its path.
\<close>

fun recordDiscovered ::
  "'w platform \<Rightarrow> (string \<times> (string \<times> nat) option) list \<Rightarrow> Pages \<times> string list
     \<Rightarrow> ScoreError + (Pages \<times> string list)" where
  "recordDiscovered env [] st = Inr st"
| "recordDiscovered env ((u, result) # rest) (pgs, crawled) =
     (if Map_size pgs \<ge> MAX_CRAWL_PAGES then Inr (pgs, crawled)
      else (case result of
              None \<Rightarrow> recordDiscovered env rest (pgs, crawled)
            | Some (html, status) \<Rightarrow>
                (if status < 400
                 then (case newURL env u of
                         None \<Rightarrow> Inl TypeError
                       | Some parsed \<Rightarrow>
                           recordDiscovered env rest
                             (Map_set pgs (pathname parsed) html, crawled @ [u]))
                 else recordDiscovered env rest (pgs, crawled))))"

function discoveredLoop ::
  "'w platform \<Rightarrow> string list \<Rightarrow> nat \<Rightarrow> Pages \<times> string list \<Rightarrow> string list \<Rightarrow> 'w
     \<Rightarrow> ScoreError + ((Pages \<times> string list) \<times> string list \<times> 'w)" where
  "discoveredLoop env uniqueDiscovered i st visited w =
     (if i < length uniqueDiscovered \<and> Map_size (fst st) < MAX_CRAWL_PAGES
      then (let batch = slice uniqueDiscovered (int i) (int i + int BATCH_SIZE)
            in (case fetchBatch env batch w of
                  (results, w') \<Rightarrow>
                    (case recordDiscovered env results st of
                       Inl e \<Rightarrow> Inl e
                     | Inr st' \<Rightarrow>
                         discoveredLoop env uniqueDiscovered (i + BATCH_SIZE) st'
                           (visited @ batch) w')))
      else Inr (st, visited, w))"
  by pat_completeness auto
termination
  by (relation
        "measure (\<lambda>(env, uniqueDiscovered, i, st, visited, w). length uniqueDiscovered - i)")
     (auto simp: BATCH_SIZE_def)

text \<open>The four phases.  The result: the page map, the crawled pages, the world.\<close>

definition crawl ::
  "'w platform \<Rightarrow> string \<Rightarrow> string \<Rightarrow> 'w \<Rightarrow> ScoreError + ((Pages \<times> string list) \<times> 'w)" where
  "crawl env orig baseDomain w =
     (let subdomainSeeds = map (\<lambda>sub. ''https://'' @ sub @ ''.'' @ baseDomain) SUBDOMAIN_PREFIXES;
          allSeeds = map (\<lambda>p. orig @ p) SEED_PATHS @ subdomainSeeds
      in (case uniqueSeedsOf allSeeds [] of
            (uniqueSeeds, visited) \<Rightarrow>
              (case seedLoop env orig uniqueSeeds 0 ([], []) w of
                 Inl e \<Rightarrow> Inl e
               | Inr ((pgs, crawled), w1) \<Rightarrow>
                   (let discoveredUrls = discoveredUrlsOf env orig baseDomain visited pgs;
                        uniqueDiscovered = uniqueDiscoveredOf discoveredUrls pgs
                    in (case discoveredLoop env uniqueDiscovered 0 (pgs, crawled) visited w1 of
                          Inl e \<Rightarrow> Inl e
                        | Inr (st, visited', w2) \<Rightarrow> Inr (st, w2))))))"

section \<open>The scorer\<close>

text \<open>
  The input is parsed, checked for a dot in the host, and one leading \<open>www.\<close> is
  taken off by replacing the first \<open>://www.\<close> of the \<open>href\<close> and parsing again.  The
  first constructor call stands in a \<open>try\<close> that rethrows an \<open>Error\<close>; the second one
  does not.
\<close>

definition invalidUrlMessage :: string where
  "invalidUrlMessage = ''Invalid URL. Try something like: stripe.com''"

definition notFullUrlMessage :: "string \<Rightarrow> string" where
  "notFullUrlMessage inputUrl =
     [CHR 0x22] @ inputUrl @ [CHR 0x22] @ '' doesn't look like a full URL. Try: ''
       @ inputUrl @ ''.com''"

definition baseUrlOf :: "'w platform \<Rightarrow> string \<Rightarrow> ScoreError + URL" where
  "baseUrlOf env inputUrl =
     (case newURL env (if startsWith inputUrl ''http'' then inputUrl
                       else ''https://'' @ inputUrl) of
        None \<Rightarrow> Inl (Error invalidUrlMessage)
      | Some baseUrl \<Rightarrow>
          (if \<not> strIncludes (hostname baseUrl) ''.''
           then Inl (Error (notFullUrlMessage inputUrl))
           else if startsWith (hostname baseUrl) ''www.''
           then (case newURL env (replaceFirst (href baseUrl) ''://www.'' ''://'') of
                   None \<Rightarrow> Inl TypeError
                 | Some stripped \<Rightarrow> Inr stripped)
           else Inr baseUrl))"

text \<open>
  The evaluator of the OpenAPI sub-score fetches up to four paths of the origin, each
  with a timeout of 3000 ms and \<open>fetchPage\<close>'s default retries, and stops at the first
  hit.
\<close>

definition OPENAPI_PATHS :: "string list" where
  "OPENAPI_PATHS =
     [''/openapi.json'', ''/swagger.json'', ''/api-docs/swagger.json'',
      ''/.well-known/openapi.json'']"

definition isOpenapiHit :: "(string \<times> nat) option \<Rightarrow> bool" where
  "isOpenapiHit r =
     (case r of
        None \<Rightarrow> False
      | Some (html, status) \<Rightarrow>
          status = 200 \<and> strIncludes html ([CHR 0x22] @ ''openapi'' @ [CHR 0x22]))"

fun probeOpenapi :: "'w platform \<Rightarrow> string \<Rightarrow> string list \<Rightarrow> SubScore \<Rightarrow> 'w \<Rightarrow> SubScore \<times> 'w" where
  "probeOpenapi env orig [] s w = (s, w)"
| "probeOpenapi env orig (p # ps) s w =
     (case fetchPage env (orig @ p) 3000 default_retries w of
        (r, w') \<Rightarrow>
          (if isOpenapiHit r
           then (push (''OpenAPI spec found at '' @ p) (setScore 2 s), w')
           else probeOpenapi env orig ps s w'))"

definition disc_metadata :: "'w platform \<Rightarrow> string \<Rightarrow> string \<Rightarrow> 'w \<Rightarrow> SubScore \<times> 'w" where
  "disc_metadata env orig allText w =
     (let s0 = newSubScore ''Structured metadata / OpenAPI spec'' 2 0 None;
          openapiIndicators = textContains allText
            [''openapi'', ''swagger'', ''api-spec'', ''openapi.json'', ''openapi.yaml'',
             ''swagger.json'', ''swagger.yaml'', ''redoc''];
          s1 = (if openapiIndicators \<noteq> []
                then push (''OpenAPI/Swagger indicators: '' @ join '', '' openapiIndicators)
                       (setScore 2 s0)
                else s0)
      in (case probeOpenapi env orig OPENAPI_PATHS s1 w of
            (s2, w') \<Rightarrow>
              (if SubScore.score s2 = 0
               then (push ''No OpenAPI/Swagger spec detected'' s2, w')
               else (s2, w'))))"

text \<open>The aggregator.\<close>

definition sumScores :: "SubScore list \<Rightarrow> int" where
  "sumScores subs = foldl (\<lambda>acc s. acc + SubScore.score s) 0 subs"

definition newCategory :: "string \<Rightarrow> string \<Rightarrow> SubScore list \<Rightarrow> CategoryScore" where
  "newCategory n d subs =
     \<lparr>CategoryScore.name = n, description = d, maxPoints = 10, score = 0, subScores = subs\<rparr>"

definition scoreCategory :: "CategoryScore \<Rightarrow> CategoryScore" where
  "scoreCategory cat =
     cat\<lparr>CategoryScore.score :=
           min (CategoryScore.maxPoints cat) (sumScores (subScores cat))\<rparr>"

definition totalOf :: "CategoryScore list \<Rightarrow> int" where
  "totalOf cats = foldl (\<lambda>acc c. acc + CategoryScore.score c) 0 cats"

definition gradeOf :: "int \<Rightarrow> string" where
  "gradeOf tot =
     (if tot \<ge> 35 then ''A''
      else if tot \<ge> 28 then ''B''
      else if tot \<ge> 20 then ''C''
      else if tot \<ge> 10 then ''D''
      else ''F'')"

definition noteOrName :: "SubScore \<Rightarrow> string" where
  "noteOrName s =
     (case frictionNote s of
        None \<Rightarrow> SubScore.name s
      | Some n \<Rightarrow> if n = [] then SubScore.name s else n)"

definition frictionSummaryOf :: "CategoryScore list \<Rightarrow> FrictionSummary" where
  "frictionSummaryOf cats =
     (let allSubScores = concat (map subScores cats);
          vol = map noteOrName (filter (\<lambda>s. frictionType s = Some voluntary) allSubScores);
          reg = map noteOrName (filter (\<lambda>s. frictionType s = Some regulatory) allSubScores)
      in \<lparr>voluntaryFriction = vol, regulatoryFriction = reg, agentReadyPending = (reg \<noteq> [])\<rparr>)"

definition noPagesMessage :: string where
  "noPagesMessage = ''Could not fetch any pages from this URL''"

text \<open>
  Everything after the crawl: the corpus, the seventeen evaluators in the order of the
  source, the categories, the total, the grade, the friction summary, the identifier
  (the UUID up to its first hyphen) and the timestamp.
\<close>

definition evaluate ::
  "'w platform \<Rightarrow> string \<Rightarrow> Pages \<Rightarrow> string list \<Rightarrow> 'w \<Rightarrow> ScoringResult \<times> 'w" where
  "evaluate env orig pgs crawled w =
     (let errs = (if Map_size pgs = 0 then [noPagesMessage] else []);
          allText = toLowerCase (join [CHR 0x0A] (map snd pgs));
          allLinks = concat (map (\<lambda>(k, html). findLinks env html orig) pgs);
          allLinksText = toLowerCase (join '' '' allLinks)
      in (case disc_metadata env orig allText w of
            (metadata, w1) \<Rightarrow>
              (let cats = map scoreCategory
                     [newCategory ''DISCOVERY'' ''Can an agent find this?''
                        [disc_api pgs allText allLinksText, disc_pricing pgs allText,
                         disc_directories allText, metadata],
                      newCategory ''PURCHASE'' ''Can an agent buy it?''
                        [purch_signup allText, purch_captcha allText, purch_billing allText,
                         purch_crypto allText, purch_protocols allText],
                      newCategory ''INTEGRATION'' ''Can an agent use it?''
                        [int_mcp allText, int_structured allText, int_sandbox allText,
                         int_ratelimits allText],
                      newCategory ''TRUST'' ''Would an owner allow it?''
                        [trust_pricing allText, trust_spend allText, trust_sla pgs allText,
                         trust_tos pgs allText]];
                   tot = totalOf cats
               in (case randomUUID env w1 of
                     (uuid, w2) \<Rightarrow>
                       (case toISOString env w2 of
                          (stamp, w3) \<Rightarrow>
                            (\<lparr>id = takeWhile (\<lambda>c. c \<noteq> CHR ''-'') uuid, url = orig,
                              timestamp = stamp, totalScore = tot, maxScore = 40,
                              grade = gradeOf tot, categories = cats,
                              frictionSummary = frictionSummaryOf cats,
                              crawledPages = crawled, errors = errs\<rparr>, w3))))))"

definition scoreUrl :: "'w platform \<Rightarrow> string \<Rightarrow> 'w \<Rightarrow> ScoreError + (ScoringResult \<times> 'w)" where
  "scoreUrl env inputUrl w =
     (case baseUrlOf env inputUrl of
        Inl e \<Rightarrow> Inl e
      | Inr baseUrl \<Rightarrow>
          (case crawl env (origin baseUrl) (stripWww (hostname baseUrl)) w of
             Inl e \<Rightarrow> Inl e
           | Inr ((pgs, crawled), w1) \<Rightarrow> Inr (evaluate env (origin baseUrl) pgs crawled w1)))"

section \<open>A concrete platform\<close>

text \<open>
  For runs on concrete inputs the parameters are instantiated.  \<open>URL_parse\<close> follows
  the URL Standard's parser on a fragment of its inputs and returns \<open>None\<close> on every
  other string, whether the constructor would throw there or not.  The fragment: after
  trimming (leading and trailing bytes up to space, every tab and newline), a scheme
  \<open>http\<close> or \<open>https\<close> in any case, any number of slashes and backslashes, then an
  authority without credentials whose host consists of ASCII letters, digits, \<open>-\<close>, \<open>_\<close>
  and \<open>.\<close>, has no label that starts with \<open>xn--\<close> and does not end in a number (so it
  is not an IPv4 address), an optional decimal port up to 65535, and a path, query and
  fragment made of characters the parser copies unchanged.  On the fragment the host
  is lower-cased, a default port is dropped, and the dot segments of the path are
  resolved.  The statements about every platform do not depend on \<open>URL_parse\<close>; it
  serves the runs on concrete inputs, which all lie in the fragment.
\<close>

definition isDigit :: "char \<Rightarrow> bool" where
  "isDigit c = (48 \<le> (of_char c :: nat) \<and> (of_char c :: nat) \<le> 57)"

definition isAlpha :: "char \<Rightarrow> bool" where
  "isAlpha c =
     (let n = (of_char c :: nat) in (65 \<le> n \<and> n \<le> 90) \<or> (97 \<le> n \<and> n \<le> 122))"

definition isHexDigit :: "char \<Rightarrow> bool" where
  "isHexDigit c =
     (let n = (of_char c :: nat)
      in (48 \<le> n \<and> n \<le> 57) \<or> (65 \<le> n \<and> n \<le> 70) \<or> (97 \<le> n \<and> n \<le> 102))"

definition isSchemeChar :: "char \<Rightarrow> bool" where
  "isSchemeChar c = (isAlpha c \<or> isDigit c \<or> c = CHR ''+'' \<or> c = CHR ''-'' \<or> c = CHR ''.'')"

definition isHostChar :: "char \<Rightarrow> bool" where
  "isHostChar c = (isAlpha c \<or> isDigit c \<or> c = CHR ''-'' \<or> c = CHR ''_'' \<or> c = CHR ''.'')"

definition isCopiedChar :: "char \<Rightarrow> bool" where
  "isCopiedChar c =
     (isAlpha c \<or> isDigit c \<or> c \<in> set ''-._~!$&()*+,;=:@/%'')"

definition isC0OrSpace :: "char \<Rightarrow> bool" where
  "isC0OrSpace c = ((of_char c :: nat) \<le> 32)"

definition isTabOrNewline :: "char \<Rightarrow> bool" where
  "isTabOrNewline c = (c = CHR 0x09 \<or> c = CHR 0x0A \<or> c = CHR 0x0D)"

definition trimInput :: "string \<Rightarrow> string" where
  "trimInput s =
     filter (\<lambda>c. \<not> isTabOrNewline c)
       (rev (dropWhile isC0OrSpace (rev (dropWhile isC0OrSpace s))))"

definition splitScheme :: "string \<Rightarrow> (string \<times> string) option" where
  "splitScheme s =
     (case s of
        [] \<Rightarrow> None
      | c # cs \<Rightarrow>
          if \<not> isAlpha c then None
          else (case dropWhile isSchemeChar s of
                  [] \<Rightarrow> None
                | d # ds \<Rightarrow>
                    if d = CHR '':'' then Some (toLowerCase (takeWhile isSchemeChar s), ds)
                    else None))"

definition isSlash :: "char \<Rightarrow> bool" where
  "isSlash c = (c = CHR ''/'' \<or> c = CHR 0x5C)"

definition isAuthorityChar :: "char \<Rightarrow> bool" where
  "isAuthorityChar c = (\<not> isSlash c \<and> c \<noteq> CHR ''?'' \<and> c \<noteq> CHR ''#'')"

text \<open>The last label of a host, one trailing dot set aside.\<close>

definition lastLabel :: "string \<Rightarrow> string" where
  "lastLabel h =
     (let h' = (if h \<noteq> [] \<and> last h = CHR ''.'' then butlast h else h)
      in rev (takeWhile (\<lambda>c. c \<noteq> CHR ''.'') (rev h')))"

definition endsInNumber :: "string \<Rightarrow> bool" where
  "endsInNumber h =
     (let l = lastLabel h
      in (l \<noteq> [] \<and> list_all isDigit l)
         \<or> (startsWith (toLowerCase l) ''0x'' \<and> list_all isHexDigit (drop 2 l)))"

definition hasPunycodeLabel :: "string \<Rightarrow> bool" where
  "hasPunycodeLabel h =
     (startsWith (toLowerCase h) ''xn--'' \<or> strIncludes (toLowerCase h) ''.xn--'')"

definition hostOk :: "string \<Rightarrow> bool" where
  "hostOk h = (h \<noteq> [] \<and> list_all isHostChar h \<and> \<not> endsInNumber h \<and> \<not> hasPunycodeLabel h)"

definition digitValue :: "char \<Rightarrow> nat" where
  "digitValue c = (of_char c :: nat) - 48"

definition parseDecimal :: "string \<Rightarrow> nat" where
  "parseDecimal ds = foldl (\<lambda>acc c. 10 * acc + digitValue c) 0 ds"

function showDecimal :: "nat \<Rightarrow> string" where
  "showDecimal n =
     (if n < 10 then [char_of (48 + n)]
      else showDecimal (n div 10) @ [char_of (48 + n mod 10)])"
  by pat_completeness auto
termination
  by (relation "measure (\<lambda>n. n)") auto

definition defaultPort :: "string \<Rightarrow> nat" where
  "defaultPort scheme = (if scheme = ''https'' then 443 else 80)"

text \<open>The port of an authority: \<open>None\<close> is failure, \<open>Some []\<close> no port.\<close>

definition portOf :: "string \<Rightarrow> string \<Rightarrow> string option" where
  "portOf scheme ds =
     (if \<not> list_all isDigit ds then None
      else if ds = [] then Some []
      else if parseDecimal ds > 65535 then None
      else if parseDecimal ds = defaultPort scheme then Some []
      else Some (CHR '':'' # showDecimal (parseDecimal ds)))"

text \<open>
  The path: split at the slashes after the leading one, then the segments in order;
  a double-dot segment removes the segment before it, a single-dot segment is skipped,
  and either leaves an empty segment when it is the last.
\<close>

fun splitSegments :: "string \<Rightarrow> string \<Rightarrow> string list" where
  "splitSegments acc [] = [acc]"
| "splitSegments acc (c # cs) =
     (if c = CHR ''/'' then acc # splitSegments [] cs else splitSegments (acc @ [c]) cs)"

definition isSingleDot :: "string \<Rightarrow> bool" where
  "isSingleDot seg = (toLowerCase seg \<in> set [''.'', ''%2e''])"

definition isDoubleDot :: "string \<Rightarrow> bool" where
  "isDoubleDot seg = (toLowerCase seg \<in> set [''..'', ''.%2e'', ''%2e.'', ''%2e%2e''])"

fun resolveSegments :: "string list \<Rightarrow> string list \<Rightarrow> string list" where
  "resolveSegments done [] = done"
| "resolveSegments done [seg] =
     (if isDoubleDot seg then butlast done @ [[]]
      else if isSingleDot seg then done @ [[]]
      else done @ [seg])"
| "resolveSegments done (seg # segs) =
     (if isDoubleDot seg then resolveSegments (butlast done) segs
      else if isSingleDot seg then resolveSegments done segs
      else resolveSegments (done @ [seg]) segs)"

definition pathnameOf :: "string \<Rightarrow> string" where
  "pathnameOf p =
     concat (map (\<lambda>seg. CHR ''/'' # seg)
                 (resolveSegments []
                    (splitSegments [] (if p \<noteq> [] \<and> hd p = CHR ''/'' then tl p else p))))"

definition URL_parse :: "string \<Rightarrow> URL option" where
  "URL_parse s =
     (case splitScheme (trimInput s) of
        None \<Rightarrow> None
      | Some (scheme, rest) \<Rightarrow>
          if scheme \<noteq> ''http'' \<and> scheme \<noteq> ''https'' then None
          else (let afterSlashes = dropWhile isSlash rest;
                    authority = takeWhile isAuthorityChar afterSlashes;
                    remainder = dropWhile isAuthorityChar afterSlashes;
                    host = takeWhile (\<lambda>c. c \<noteq> CHR '':'') authority;
                    portDigits = drop (Suc (length host)) authority
                in if \<not> hostOk host \<or> \<not> list_all isCopiedChar
                        (filter (\<lambda>c. c \<noteq> CHR ''?'' \<and> c \<noteq> CHR ''#'') remainder)
                      \<or> CHR ''?'' \<in> set (dropWhile (\<lambda>c. c \<noteq> CHR ''#'') remainder)
                      \<or> CHR ''#'' \<in> set (drop 1 (dropWhile (\<lambda>c. c \<noteq> CHR ''#'') remainder))
                   then None
                   else (case portOf scheme portDigits of
                           None \<Rightarrow> None
                         | Some port \<Rightarrow>
                             (let orig = scheme @ ''://'' @ toLowerCase host @ port;
                                  path = pathnameOf
                                    (takeWhile (\<lambda>c. c \<noteq> CHR ''?'' \<and> c \<noteq> CHR ''#'') remainder);
                                  tail = dropWhile (\<lambda>c. c \<noteq> CHR ''?'' \<and> c \<noteq> CHR ''#'')
                                    remainder
                              in Some \<lparr>href = orig @ path @ tail, origin = orig,
                                       hostname = toLowerCase host, pathname = path\<rparr>))))"

text \<open>
  \<open>URL_resolve\<close> is the constructor with a base, on two kinds of reference: an absolute
  \<open>http(s)://\<close> URL, parsed as it stands, and a path that starts with one slash, put
  behind the origin of the base.  Every other reference is \<open>None\<close>.
\<close>

definition URL_resolve :: "string \<Rightarrow> string \<Rightarrow> URL option" where
  "URL_resolve ref base =
     (let r = trimInput ref
      in if startsWith (toLowerCase r) ''http://'' \<or> startsWith (toLowerCase r) ''https://''
         then URL_parse r
         else if startsWith r ''/'' \<and> \<not> startsWith r ''//'' \<and> \<not> startsWith r [CHR ''/'', CHR 0x5C]
         then (case URL_parse base of
                 None \<Rightarrow> None
               | Some b \<Rightarrow> URL_parse (origin b @ r))
         else None)"

text \<open>
  The anchors of a document in which every anchor is written \<open><a href="\<dots>"\<close> and
  no attribute value holds a character reference: the text between the quotes, in
  document order.
\<close>

definition anchorOpen :: string where
  "anchorOpen = ''<a href='' @ [CHR 0x22]"

fun anchorScan :: "string \<Rightarrow> string list" where
  "anchorScan [] = []"
| "anchorScan (c # cs) =
     (if startsWith (c # cs) anchorOpen
      then takeWhile (\<lambda>d. d \<noteq> CHR 0x22) (drop (length anchorOpen) (c # cs)) # anchorScan cs
      else anchorScan cs)"

definition anchor :: "string \<Rightarrow> string" where
  "anchor target = anchorOpen @ target @ [CHR 0x22] @ ''>link</a>''"

text \<open>The platform with these parts, a fixed identifier and a fixed timestamp.\<close>

definition concretePlatform ::
  "(string \<Rightarrow> nat \<Rightarrow> 'w \<Rightarrow> FetchOutcome \<times> 'w) \<Rightarrow> 'w platform" where
  "concretePlatform f =
     \<lparr>fetch = f, newURL = URL_parse, newURLbase = URL_resolve, anchorHrefs = anchorScan,
      randomUUID = (\<lambda>w. (''9b2f6c1e-7d4a-4c3b-8e21-5f0a6d9c4b17'', w)),
      toISOString = (\<lambda>w. (''2025-01-01T00:00:00.000Z'', w))\<rparr>"

section \<open>Notions the statements use\<close>

text \<open>A sub-score within its bounds.\<close>

definition inRange :: "SubScore \<Rightarrow> bool" where
  "inRange s = (0 \<le> SubScore.score s \<and> SubScore.score s \<le> SubScore.maxPoints s)"

text \<open>The corpus of a page map, and the categories \<open>evaluate\<close> builds over it.\<close>

definition corpusText :: "Pages \<Rightarrow> string" where
  "corpusText pgs = toLowerCase (join [CHR 0x0A] (map snd pgs))"

definition corpusLinks :: "'w platform \<Rightarrow> string \<Rightarrow> Pages \<Rightarrow> string" where
  "corpusLinks env orig pgs =
     toLowerCase (join '' '' (concat (map (\<lambda>(k, html). findLinks env html orig) pgs)))"

definition categoriesOf ::
  "Pages \<Rightarrow> string \<Rightarrow> string \<Rightarrow> SubScore \<Rightarrow> CategoryScore list" where
  "categoriesOf pgs t l metadata =
     map scoreCategory
       [newCategory ''DISCOVERY'' ''Can an agent find this?''
          [disc_api pgs t l, disc_pricing pgs t, disc_directories t, metadata],
        newCategory ''PURCHASE'' ''Can an agent buy it?''
          [purch_signup t, purch_captcha t, purch_billing t, purch_crypto t, purch_protocols t],
        newCategory ''INTEGRATION'' ''Can an agent use it?''
          [int_mcp t, int_structured t, int_sandbox t, int_ratelimits t],
        newCategory ''TRUST'' ''Would an owner allow it?''
          [trust_pricing t, trust_spend t, trust_sla pgs t, trust_tos pgs t]]"

text \<open>The four keyword searches of the signup evaluator.\<close>

definition signupIndicatorsOf :: "string \<Rightarrow> string list" where
  "signupIndicatorsOf allText =
     textContains allText
       [''api key'', ''get started'', ''sign up'', ''create account'', ''register'',
        ''get api key'', ''instant access'']"

definition noHumanStepsOf :: "string \<Rightarrow> string list" where
  "noHumanStepsOf allText =
     textContains allText
       [''no credit card'', ''instant'', ''self-serve'', ''self-service'', ''automatic'']"

definition kycIndicatorsOf :: "string \<Rightarrow> string list" where
  "kycIndicatorsOf allText =
     textContains allText
       [''kyc'', ''know your customer'', ''identity verification'', ''id verification'',
        ''aml'', ''anti-money laundering'', ''verify your identity'', ''government id'',
        ''ssn'', ''passport'', ''drivers license'', ''proof of address'',
        ''accredited investor'']"

definition contactSalesSignupOf :: "string \<Rightarrow> string list" where
  "contactSalesSignupOf allText =
     textContains allText
       [''contact sales'', ''request demo'', ''book a demo'', ''talk to sales'',
        ''schedule a call'', ''request access'']"

text \<open>
  A result of \<open>fetchPage\<close> that the crawl records, and a platform whose \<open>fetch\<close> never
  gives one: every call is rejected or answers with a status of 400 or more.
\<close>

definition usable :: "(string \<times> nat) option \<Rightarrow> bool" where
  "usable r = (case r of None \<Rightarrow> False | Some (html, status) \<Rightarrow> status < 400)"

definition neverUsable :: "'w platform \<Rightarrow> bool" where
  "neverUsable env =
     (\<forall>u t w. case fst (fetch env u t w) of
                Response html status \<Rightarrow> \<not> status < 400
              | Rejected \<Rightarrow> True)"

text \<open>A site that answers nothing.\<close>

definition silentFetch :: "string \<Rightarrow> nat \<Rightarrow> unit \<Rightarrow> FetchOutcome \<times> unit" where
  "silentFetch u timeout w = (Rejected, w)"

text \<open>
  A static site: a world-free \<open>fetch\<close> that answers by a table from URLs to bodies and
  statuses.  On a static site the batches of the crawl amount to one pass over the
  seeds and one over the discovered URLs, which \<open>staticCrawl\<close> writes out.
\<close>

definition staticFetch ::
  "(string \<Rightarrow> (string \<times> nat) option) \<Rightarrow> string \<Rightarrow> nat \<Rightarrow> unit \<Rightarrow> FetchOutcome \<times> unit" where
  "staticFetch site u timeout w =
     (case site u of None \<Rightarrow> (Rejected, w) | Some (html, status) \<Rightarrow> (Response html status, w))"

definition staticResults ::
  "(string \<Rightarrow> (string \<times> nat) option) \<Rightarrow> string list \<Rightarrow> (string \<times> (string \<times> nat) option) list" where
  "staticResults site us = map (\<lambda>u. (u, site u)) us"

definition staticCrawl ::
  "'w platform \<Rightarrow> (string \<Rightarrow> (string \<times> nat) option) \<Rightarrow> string \<Rightarrow> string
     \<Rightarrow> ScoreError + (Pages \<times> string list)" where
  "staticCrawl env site orig baseDomain =
     (case uniqueSeedsOf
             (map (\<lambda>p. orig @ p) SEED_PATHS
                @ map (\<lambda>sub. ''https://'' @ sub @ ''.'' @ baseDomain) SUBDOMAIN_PREFIXES) [] of
        (uniqueSeeds, visited) \<Rightarrow>
          (case recordSeeds env orig (staticResults site uniqueSeeds) ([], []) of
             Inl e \<Rightarrow> Inl e
           | Inr (pgs, crawled) \<Rightarrow>
               recordDiscovered env
                 (staticResults site
                    (uniqueDiscoveredOf (discoveredUrlsOf env orig baseDomain visited pgs) pgs))
                 (pgs, crawled)))"



text \<open>What a run returned, reduced to the fields the statements read.\<close>

definition runSummary ::
  "ScoreError + (ScoringResult \<times> 'w) \<Rightarrow> (string list \<times> string list \<times> int \<times> int list) option" where
  "runSummary x =
     (case x of
        Inl e \<Rightarrow> None
      | Inr (r, w) \<Rightarrow>
          Some (crawledPages r, errors r, totalScore r,
                map CategoryScore.score (categories r)))"

text \<open>
  A platform that keeps a log of its \<open>fetch\<close> calls: the world is paired with the list
  of the calls made so far, each with its URL, its timeout and its outcome.  Nothing
  else changes.
\<close>

type_synonym FetchLog = "(string \<times> nat \<times> FetchOutcome) list"

definition traced :: "'w platform \<Rightarrow> ('w \<times> FetchLog) platform" where
  "traced env =
     \<lparr>fetch = (\<lambda>u timeout wl.
                 case fetch env u timeout (fst wl) of
                   (out, w') \<Rightarrow> (out, (w', snd wl @ [(u, timeout, out)]))),
      newURL = newURL env, newURLbase = newURLbase env, anchorHrefs = anchorHrefs env,
      randomUUID = (\<lambda>wl. case randomUUID env (fst wl) of (x, w') \<Rightarrow> (x, (w', snd wl))),
      toISOString = (\<lambda>wl. case toISOString env (fst wl) of (x, w') \<Rightarrow> (x, (w', snd wl)))\<rparr>"

text \<open>What \<open>fetchPage\<close> returns for an outcome of \<open>fetch\<close>.\<close>

definition answerOf :: "FetchOutcome \<Rightarrow> (string \<times> nat) option" where
  "answerOf out = (case out of Response html status \<Rightarrow> Some (html, status) | Rejected \<Rightarrow> None)"

definition isHitEntry :: "string \<times> nat \<times> FetchOutcome \<Rightarrow> bool" where
  "isHitEntry e = isOpenapiHit (answerOf (snd (snd e)))"

definition callsTo :: "string \<Rightarrow> FetchLog \<Rightarrow> nat" where
  "callsTo u log = length (filter (\<lambda>e. fst e = u) log)"

text \<open>A site that serves an OpenAPI document at \<open>/swagger.json\<close> and nothing else.\<close>

definition specSite :: "string \<Rightarrow> (string \<times> nat) option" where
  "specSite u =
     (if u = ''https://example.com/swagger.json''
      then Some (''{'' @ [CHR 0x22] @ ''openapi'' @ [CHR 0x22] @ '': 3}'', 200)
      else None)"

text \<open>
  A small site.  Its home page links to a page on its \<open>docs\<close> subdomain and to a page
  on another site whose name ends with the base domain; it has a \<open>/docs\<close> page of its
  own, and the \<open>docs\<close> subdomain answers at its root.
\<close>

definition sampleRoot :: string where
  "sampleRoot =
     anchor ''https://docs.example.com/api/guide'' @ anchor ''https://evilexample.com/docs''"

definition sampleSite :: "string \<Rightarrow> (string \<times> nat) option" where
  "sampleSite u =
     (if u = ''https://example.com'' then Some (sampleRoot, 200)
      else if u = ''https://example.com/docs'' then Some (''our docs'', 200)
      else if u = ''https://docs.example.com'' then Some (''docs home'', 200)
      else if u = ''https://docs.example.com/api/guide'' then Some (''guide'', 200)
      else if u = ''https://evilexample.com/docs'' then Some (''not ours'', 200)
      else None)"

text \<open>
  A site on the host \<open>docs.do\<close> where every URL answers with status 200 and an empty
  body, except that the page at \<open>https://docs.docs.do\<close> links to three pages of the
  site.
\<close>

definition docsDoLinks :: string where
  "docsDoLinks =
     anchor ''https://docs.do/api/a'' @ anchor ''https://docs.do/api/b''
       @ anchor ''https://docs.do/api/c''"

definition docsDoSite :: "string \<Rightarrow> (string \<times> nat) option" where
  "docsDoSite u = Some (if u = ''https://docs.docs.do'' then docsDoLinks else [], 200)"

text \<open>The number of crawled pages of a run, and the crawl of a run.\<close>

definition crawledCount :: "ScoreError + (ScoringResult \<times> 'w) \<Rightarrow> nat option" where
  "crawledCount x = (case x of Inl e \<Rightarrow> None | Inr (r, w) \<Rightarrow> Some (length (crawledPages r)))"

definition crawlSizes :: "ScoreError + (Pages \<times> string list) \<Rightarrow> (nat \<times> nat) option" where
  "crawlSizes x =
     (case x of Inl e \<Rightarrow> None | Inr (pgs, crawled) \<Rightarrow> Some (Map_size pgs, length crawled))"

definition crawledOf :: "ScoreError + ((Pages \<times> string list) \<times> 'w) \<Rightarrow> string list" where
  "crawledOf x = (case x of Inl e \<Rightarrow> [] | Inr ((pgs, crawled), w) \<Rightarrow> crawled)"





declare fetchPage_loop.simps [simp del] seedLoop.simps [simp del] discoveredLoop.simps [simp del]

section \<open>Sub-scores stay in range\<close>

lemma score_push [simp]: "SubScore.score (push f s) = SubScore.score s"
  and maxPoints_push [simp]: "SubScore.maxPoints (push f s) = SubScore.maxPoints s"
  and frictionType_push [simp]: "frictionType (push f s) = frictionType s"
  by (simp_all add: push_def)

lemma score_setScore [simp]: "SubScore.score (setScore n s) = n"
  and maxPoints_setScore [simp]: "SubScore.maxPoints (setScore n s) = SubScore.maxPoints s"
  and frictionType_setScore [simp]: "frictionType (setScore n s) = frictionType s"
  by (simp_all add: setScore_def)

lemma score_setFriction [simp]: "SubScore.score (setFriction t n s) = SubScore.score s"
  and maxPoints_setFriction [simp]:
    "SubScore.maxPoints (setFriction t n s) = SubScore.maxPoints s"
  and frictionType_setFriction [simp]: "frictionType (setFriction t n s) = Some t"
  by (simp_all add: setFriction_def)

lemma score_newSubScore [simp]: "SubScore.score (newSubScore n m s f) = s"
  and maxPoints_newSubScore [simp]: "SubScore.maxPoints (newSubScore n m s f) = m"
  and frictionType_newSubScore [simp]: "frictionType (newSubScore n m s f) = f"
  by (simp_all add: newSubScore_def)

lemma step_add:
  "0 \<le> SubScore.score s \<Longrightarrow> 0 \<le> k \<Longrightarrow> SubScore.score s + k \<le> SubScore.maxPoints s \<Longrightarrow>
   inRange (if c then push f (setScore (SubScore.score s + k) s) else s)"
  by (simp add: inRange_def)

lemma step_min:
  "inRange s \<Longrightarrow> 0 \<le> k \<Longrightarrow> m \<le> SubScore.maxPoints s \<Longrightarrow> 0 \<le> m \<Longrightarrow>
   inRange (if c then push f (setScore (min m (SubScore.score s + k)) s) else s)"
  by (auto simp: inRange_def)

lemma step_set:
  "inRange s \<Longrightarrow> 0 \<le> n \<Longrightarrow> n \<le> SubScore.maxPoints s \<Longrightarrow>
   inRange (if c then push f (setScore n s) else s)"
  by (simp add: inRange_def)

lemma step_maxPoints:
  "SubScore.maxPoints (if c then push f (setScore n s) else s) = SubScore.maxPoints s"
  by simp

lemma step_zero: "inRange s \<Longrightarrow> inRange (if c then push f s else s)"
  by (simp add: inRange_def)

lemma disc_api_range: "inRange (disc_api pgs t l)"
  unfolding disc_api_def Let_def
  by (intro step_zero step_min step_add)
     (simp_all only: step_maxPoints maxPoints_newSubScore score_newSubScore)

lemma disc_pricing_range: "inRange (disc_pricing pgs t)"
  unfolding disc_pricing_def Let_def
  by (intro step_zero step_set step_min step_add)
     (simp_all only: step_maxPoints maxPoints_newSubScore score_newSubScore)

lemma int_structured_range: "inRange (int_structured t)"
  unfolding int_structured_def Let_def
  by (intro step_zero step_min step_add)
     (simp_all only: step_maxPoints maxPoints_newSubScore score_newSubScore)

lemma disc_directories_range: "inRange (disc_directories t)"
  by (simp add: inRange_def disc_directories_def Let_def)
lemma purch_signup_range: "inRange (purch_signup t)"
  by (simp add: inRange_def purch_signup_def Let_def)
lemma purch_captcha_range: "inRange (purch_captcha t)"
  by (simp add: inRange_def purch_captcha_def Let_def)
lemma purch_billing_range: "inRange (purch_billing t)"
  by (simp add: inRange_def purch_billing_def Let_def)
lemma purch_crypto_range: "inRange (purch_crypto t)"
  by (simp add: inRange_def purch_crypto_def Let_def)
lemma purch_protocols_range: "inRange (purch_protocols t)"
  by (simp add: inRange_def purch_protocols_def Let_def)
lemma int_mcp_range: "inRange (int_mcp t)"
  by (simp add: inRange_def int_mcp_def Let_def)
lemma int_sandbox_range: "inRange (int_sandbox t)"
  by (simp add: inRange_def int_sandbox_def Let_def)
lemma int_ratelimits_range: "inRange (int_ratelimits t)"
  by (simp add: inRange_def int_ratelimits_def Let_def)
lemma trust_pricing_range: "inRange (trust_pricing t)"
  by (simp add: inRange_def trust_pricing_def Let_def)
lemma trust_spend_range: "inRange (trust_spend t)"
  by (simp add: inRange_def trust_spend_def Let_def)
lemma trust_sla_range: "inRange (trust_sla pgs t)"
  by (simp add: inRange_def trust_sla_def Let_def)
lemma trust_tos_range: "inRange (trust_tos pgs t)"
  by (simp add: inRange_def trust_tos_def Let_def)

lemma probeOpenapi_score:
  "probeOpenapi env orig ps s w = (s', w') \<Longrightarrow>
     SubScore.maxPoints s' = SubScore.maxPoints s \<and>
     (SubScore.score s' = SubScore.score s \<or> SubScore.score s' = 2)"
  by (induction ps arbitrary: w) (auto split: prod.splits if_splits)

lemma disc_metadata_range: "disc_metadata env orig t w = (s, w') \<Longrightarrow> inRange s"
  by (auto simp: inRange_def disc_metadata_def Let_def split: prod.splits if_splits
      dest!: probeOpenapi_score)

lemmas evaluator_ranges =
  disc_api_range disc_pricing_range disc_directories_range purch_signup_range
  purch_captcha_range purch_billing_range purch_crypto_range purch_protocols_range
  int_mcp_range int_structured_range int_sandbox_range int_ratelimits_range
  trust_pricing_range trust_spend_range trust_sla_range trust_tos_range

section \<open>The aggregator\<close>

lemma foldl_add_sum: "foldl (\<lambda>acc x. acc + f x) a xs = (a::int) + sum_list (map f xs)"
  by (induction xs arbitrary: a) simp_all

lemma sumScores_sum_list: "sumScores subs = sum_list (map SubScore.score subs)"
  by (simp add: sumScores_def foldl_add_sum)

lemma totalOf_sum_list: "totalOf cats = sum_list (map CategoryScore.score cats)"
  by (simp add: totalOf_def foldl_add_sum)

lemma scoreCategory_fields [simp]:
  "subScores (scoreCategory (newCategory n d subs)) = subs"
  "CategoryScore.score (scoreCategory (newCategory n d subs)) = min 10 (sumScores subs)"
  "CategoryScore.maxPoints (scoreCategory (newCategory n d subs)) = 10"
  "CategoryScore.name (scoreCategory (newCategory n d subs)) = n"
  by (simp_all add: scoreCategory_def newCategory_def)

lemma evaluate_fields:
  assumes "evaluate env orig pgs crawled w = (r, w')"
  shows "\<exists>metadata w1.
           disc_metadata env orig (corpusText pgs) w = (metadata, w1) \<and>
           categories r =
             categoriesOf pgs (corpusText pgs) (corpusLinks env orig pgs) metadata \<and>
           totalScore r = totalOf (categories r) \<and>
           grade r = gradeOf (totalScore r) \<and>
           crawledPages r = crawled \<and>
           errors r = (if pgs = [] then [noPagesMessage] else []) \<and>
           url r = orig \<and> maxScore r = 40"
  using assms
  unfolding evaluate_def corpusText_def corpusLinks_def categoriesOf_def Let_def Map_size_def
  by (auto split: prod.splits)

lemma scoreUrl_evaluate:
  assumes "scoreUrl env inputUrl w = Inr (r, w')"
  shows "\<exists>baseUrl pgs w1. baseUrlOf env inputUrl = Inr baseUrl \<and>
           crawl env (origin baseUrl) (stripWww (hostname baseUrl)) w
             = Inr ((pgs, crawledPages r), w1) \<and>
           evaluate env (origin baseUrl) pgs (crawledPages r) w1 = (r, w')"
proof -
  from assms obtain baseUrl pgs crawled w1 where
    b: "baseUrlOf env inputUrl = Inr baseUrl" and
    c: "crawl env (origin baseUrl) (stripWww (hostname baseUrl)) w = Inr ((pgs, crawled), w1)" and
    e: "evaluate env (origin baseUrl) pgs crawled w1 = (r, w')"
    by (auto simp: scoreUrl_def split: sum.splits prod.splits)
  from evaluate_fields[OF e] have "crawledPages r = crawled" by blast
  with b c e show ?thesis by blast
qed

lemma categoriesOf_props:
  assumes "inRange metadata"
  shows "length (categoriesOf pgs t l metadata) = 4"
    and "\<forall>c \<in> set (categoriesOf pgs t l metadata).
           (\<forall>s \<in> set (subScores c). inRange s) \<and>
           CategoryScore.score c = min 10 (sum_list (map SubScore.score (subScores c)))"
    and "length (concat (map subScores (categoriesOf pgs t l metadata))) = 17"
  using assms evaluator_ranges
  by (simp_all add: categoriesOf_def sumScores_sum_list)

section \<open>A fetcher that yields no usable page\<close>

lemma fetchPage_loop_neverUsable:
  "neverUsable env \<Longrightarrow> \<not> usable (fst (fetchPage_loop env u t r a w))"
proof (induction env u t r a w rule: fetchPage_loop.induct)
  case (1 env u timeout retries attempt w)
  note unfold = fetchPage_loop.simps[of env u timeout retries attempt w]
  show ?case
  proof (cases "attempt \<le> retries")
    case False
    then show ?thesis by (simp add: usable_def unfold)
  next
    case True
    obtain out w' where f: "fetch env u timeout w = (out, w')" by (cases "fetch env u timeout w")
    show ?thesis
    proof (cases out)
      case (Response html status)
      from "1.prems" have "case fst (fetch env u timeout w) of
          Response html status \<Rightarrow> \<not> status < 400 | Rejected \<Rightarrow> True"
        unfolding neverUsable_def by blast
      with f Response have "\<not> status < 400" by simp
      with True f Response show ?thesis by (simp add: usable_def unfold)
    next
      case Rejected
      with True f "1.IH"[OF True f[symmetric] Rejected "1.prems"] show ?thesis
        by (simp add: unfold)
    qed
  qed
qed

lemma fetchBatch_neverUsable:
  "neverUsable env \<Longrightarrow> \<forall>(u, r) \<in> set (fst (fetchBatch env us w)). \<not> usable r"
proof (induction us arbitrary: w)
  case Nil
  then show ?case by simp
next
  case (Cons u us)
  obtain r w1 where p: "fetchPage env u default_timeout default_retries w = (r, w1)"
    by (cases "fetchPage env u default_timeout default_retries w")
  obtain rs w2 where b: "fetchBatch env us w1 = (rs, w2)" by (cases "fetchBatch env us w1")
  have "\<not> usable r"
    using fetchPage_loop_neverUsable[OF Cons.prems, of u default_timeout default_retries 0 w] p
    by (simp add: fetchPage_def)
  moreover have "\<forall>(u, r) \<in> set rs. \<not> usable r" using Cons.IH[OF Cons.prems, of w1] b by simp
  ultimately show ?case using p b by simp
qed

lemma recordSeeds_unusable:
  "\<forall>(u, r) \<in> set results. \<not> usable r \<Longrightarrow> recordSeeds env orig results st = Inr st"
  by (induction env orig results st rule: recordSeeds.induct) (auto simp: usable_def)

lemma seedLoop_neverUsable:
  "neverUsable env \<Longrightarrow> \<exists>w'. seedLoop env orig us i st w = Inr (st, w')"
proof (induction env orig us i st w rule: seedLoop.induct)
  case (1 env orig uniqueSeeds i st w)
  note unfold = seedLoop.simps[of env orig uniqueSeeds i st w]
  show ?case
  proof (cases "i < length uniqueSeeds")
    case False
    then show ?thesis by (simp add: unfold)
  next
    case True
    obtain results w1 where
      b: "fetchBatch env (slice uniqueSeeds (int i) (int i + int BATCH_SIZE)) w = (results, w1)"
      by (cases "fetchBatch env (slice uniqueSeeds (int i) (int i + int BATCH_SIZE)) w")
    have "\<forall>(u, r) \<in> set results. \<not> usable r"
      using fetchBatch_neverUsable[OF "1.prems",
          of "slice uniqueSeeds (int i) (int i + int BATCH_SIZE)" w] b by simp
    then have r: "recordSeeds env orig results st = Inr st" by (rule recordSeeds_unusable)
    from "1.IH"[OF True b[symmetric] r "1.prems"] True b r show ?thesis
      by (simp add: unfold)
  qed
qed

lemma slice_Nil [simp]: "slice [] b e = []"
  by (simp add: slice_def Let_def)

lemma crawl_neverUsable:
  assumes "neverUsable env"
  shows "\<exists>w'. crawl env orig baseDomain w = Inr (([], []), w')"
proof -
  obtain us vis where u: "uniqueSeedsOf (map (\<lambda>p. orig @ p) SEED_PATHS @
      map (\<lambda>sub. ''https://'' @ sub @ ''.'' @ baseDomain) SUBDOMAIN_PREFIXES) [] = (us, vis)"
    by (cases "uniqueSeedsOf (map (\<lambda>p. orig @ p) SEED_PATHS @
      map (\<lambda>sub. ''https://'' @ sub @ ''.'' @ baseDomain) SUBDOMAIN_PREFIXES) []")
  from seedLoop_neverUsable[OF assms, of orig us 0 "([], [])" w]
  obtain w1 where s: "seedLoop env orig us 0 ([], []) w = Inr (([], []), w1)" by blast
  have d: "discoveredUrlsOf env orig baseDomain vis [] = []"
    by (simp add: discoveredUrlsOf_def)
  have "crawl env orig baseDomain w = Inr (([], []), w1)"
    unfolding crawl_def Let_def u
    by (simp add: s d uniqueDiscoveredOf_def discoveredLoop.simps)
  then show ?thesis by blast
qed

section \<open>The crawl of a static site\<close>

lemma fetchPage_loop_static:
  "fetch env = staticFetch site \<Longrightarrow> attempt \<le> retries \<Longrightarrow>
   fetchPage_loop env u timeout retries attempt w = (site u, w)"
proof (induction env u timeout retries attempt w rule: fetchPage_loop.induct)
  case (1 env u timeout retries attempt w)
  note unfold = fetchPage_loop.simps[of env u timeout retries attempt]
  show ?case
  proof (cases "site u")
    case (Some p)
    with "1.prems" show ?thesis by (cases p) (simp add: unfold staticFetch_def)
  next
    case None
    show ?thesis
    proof (cases "attempt + 1 \<le> retries")
      case True
      have "fetch env u timeout w = (Rejected, w)"
        using "1.prems" None by (simp add: staticFetch_def)
      from "1.IH"[OF "1.prems"(2) this[symmetric] refl "1.prems"(1) True] this "1.prems" None
      show ?thesis by (simp add: unfold)
    next
      case False
      with "1.prems" None show ?thesis
        by (simp add: unfold staticFetch_def fetchPage_loop.simps[of env u timeout retries "Suc attempt"])
    qed
  qed
qed

lemma fetchPage_static:
  "fetch env = staticFetch site \<Longrightarrow> fetchPage env u timeout retries w = (site u, w)"
  by (simp add: fetchPage_def fetchPage_loop_static)

lemma fetchBatch_static:
  "fetch env = staticFetch site \<Longrightarrow> fetchBatch env us w = (staticResults site us, w)"
  by (induction us arbitrary: w) (simp_all add: fetchPage_static staticResults_def)

lemma recordSeeds_append:
  "recordSeeds env orig (xs @ ys) st =
     (case recordSeeds env orig xs st of Inl e \<Rightarrow> Inl e | Inr st' \<Rightarrow> recordSeeds env orig ys st')"
  by (induction env orig xs st rule: recordSeeds.induct) (auto split: option.splits)

lemma slice_nat: "slice xs (int i) (int i + int n) = take n (drop i xs)"
  by (auto simp: slice_def Let_def min_def take_all drop_all)

lemma seedLoop_static:
  "fetch env = staticFetch site \<Longrightarrow>
   seedLoop env orig us i st w =
     (case recordSeeds env orig (staticResults site (drop i us)) st of
        Inl e \<Rightarrow> Inl e | Inr st' \<Rightarrow> Inr (st', w))"
proof (induction env orig us i st w rule: seedLoop.induct)
  case (1 env orig uniqueSeeds i st w)
  note unfold = seedLoop.simps[of env orig uniqueSeeds i st]
  show ?case
  proof (cases "i < length uniqueSeeds")
    case False
    then show ?thesis by (simp add: unfold staticResults_def)
  next
    case True
    let ?batch = "slice uniqueSeeds (int i) (int i + int BATCH_SIZE)"
    have b: "fetchBatch env ?batch w = (staticResults site ?batch, w)"
      using "1.prems" by (rule fetchBatch_static)
    have split: "staticResults site (drop i uniqueSeeds) =
        staticResults site ?batch @ staticResults site (drop (i + BATCH_SIZE) uniqueSeeds)"
      unfolding staticResults_def slice_nat map_append[symmetric]
      by (metis add.commute append_take_drop_id drop_drop)
    show ?thesis
    proof (cases "recordSeeds env orig (staticResults site ?batch) st")
      case (Inl e)
      with True b show ?thesis by (simp add: unfold split recordSeeds_append)
    next
      case (Inr st')
      from "1.IH"[OF True b[symmetric] Inr "1.prems"] True b Inr show ?thesis
        by (simp add: unfold split recordSeeds_append)
    qed
  qed
qed

lemma Map_set_size: "length pgs \<le> length (Map_set pgs k v)"
  by (induction pgs k v rule: Map_set.induct) auto

lemma recordDiscovered_full:
  "Map_size pgs \<ge> MAX_CRAWL_PAGES \<Longrightarrow> recordDiscovered env results (pgs, crawled) = Inr (pgs, crawled)"
  by (cases results) auto

lemma recordDiscovered_append:
  "recordDiscovered env (xs @ ys) st =
     (case recordDiscovered env xs st of
        Inl e \<Rightarrow> Inl e | Inr st' \<Rightarrow> recordDiscovered env ys st')"
proof (induction env xs st rule: recordDiscovered.induct)
  case (1 env st)
  then show ?case by simp
next
  case (2 env u result rest pgs crawled)
  show ?case
  proof (cases "Map_size pgs \<ge> MAX_CRAWL_PAGES")
    case True
    then show ?thesis by (simp add: recordDiscovered_full)
  next
    case False
    with 2 show ?thesis by (auto split: option.splits)
  qed
qed

lemma discoveredLoop_static:
  "fetch env = staticFetch site \<Longrightarrow>
   \<exists>visited'. discoveredLoop env ud i st visited w =
     (case recordDiscovered env (staticResults site (drop i ud)) st of
        Inl e \<Rightarrow> Inl e | Inr st' \<Rightarrow> Inr (st', visited', w))"
proof (induction env ud i st visited w rule: discoveredLoop.induct)
  case (1 env uniqueDiscovered i st visited w)
  note unfold = discoveredLoop.simps[of env uniqueDiscovered i _ visited]
  obtain pgs crawled where st: "st = (pgs, crawled)" by (cases st)
  show ?case
  proof (cases "i < length uniqueDiscovered \<and> Map_size (fst st) < MAX_CRAWL_PAGES")
    case False
    then show ?thesis
      by (auto simp: unfold st staticResults_def recordDiscovered_full)
  next
    case True
    let ?batch = "slice uniqueDiscovered (int i) (int i + int BATCH_SIZE)"
    have b: "fetchBatch env ?batch w = (staticResults site ?batch, w)"
      using "1.prems" by (rule fetchBatch_static)
    have split: "staticResults site (drop i uniqueDiscovered) =
        staticResults site ?batch @ staticResults site (drop (i + BATCH_SIZE) uniqueDiscovered)"
      unfolding staticResults_def slice_nat map_append[symmetric]
      by (metis add.commute append_take_drop_id drop_drop)
    show ?thesis
    proof (cases "recordDiscovered env (staticResults site ?batch) st")
      case (Inl e)
      with True b show ?thesis by (simp add: unfold split recordDiscovered_append Let_def)
    next
      case (Inr st')
      from "1.IH"[OF True refl b[symmetric] Inr "1.prems"] True b Inr show ?thesis
        by (simp add: unfold split recordDiscovered_append Let_def)
    qed
  qed
qed

lemma crawl_static:
  assumes "fetch env = staticFetch site"
  shows "crawl env orig baseDomain w =
           (case staticCrawl env site orig baseDomain of
              Inl e \<Rightarrow> Inl e | Inr st \<Rightarrow> Inr (st, w))"
proof -
  obtain us vis where u: "uniqueSeedsOf (map (\<lambda>p. orig @ p) SEED_PATHS @
      map (\<lambda>sub. ''https://'' @ sub @ ''.'' @ baseDomain) SUBDOMAIN_PREFIXES) [] = (us, vis)"
    by (cases "uniqueSeedsOf (map (\<lambda>p. orig @ p) SEED_PATHS @
      map (\<lambda>sub. ''https://'' @ sub @ ''.'' @ baseDomain) SUBDOMAIN_PREFIXES) []")
  show ?thesis
  proof (cases "recordSeeds env orig (staticResults site us) ([], [])")
    case (Inl e)
    then show ?thesis
      unfolding crawl_def staticCrawl_def Let_def u
      by (simp add: seedLoop_static[OF assms])
  next
    case (Inr st)
    obtain pgs crawled where st: "st = (pgs, crawled)" by (cases st)
    let ?ud = "uniqueDiscoveredOf (discoveredUrlsOf env orig baseDomain vis pgs) pgs"
    from discoveredLoop_static[OF assms, of ?ud 0 "(pgs, crawled)" vis w]
    obtain vis' where d: "discoveredLoop env ?ud 0 (pgs, crawled) vis w =
       (case recordDiscovered env (staticResults site ?ud) (pgs, crawled) of
        Inl e \<Rightarrow> Inl e | Inr st' \<Rightarrow> Inr (st', vis', w))" by auto
    show ?thesis
      unfolding crawl_def staticCrawl_def Let_def u
      using Inr st d by (simp add: seedLoop_static[OF assms] split: sum.splits)
  qed
qed

section \<open>The URL parser on plain URLs\<close>
















section \<open>Lower case\<close>





lemma toLowerCase_append: "toLowerCase (xs @ ys) = toLowerCase xs @ toLowerCase ys"
  by (simp add: toLowerCase_def)









section \<open>Decimal ports\<close>


declare showDecimal.simps [simp del]



section \<open>The origin of a parsed URL parses to itself\<close>



section \<open>Hosts with and without \<open>www.\<close>\<close>


lemma toLowerCase_Cons: "toLowerCase (c # cs) = toLowerChar c # toLowerCase cs"
  by (simp add: toLowerCase_def)








section \<open>Normalization over any constructor with the two properties\<close>





section \<open>Runs that return\<close>

lemma scoreUrl_returns:
  assumes "baseUrlOf env inputUrl = Inr baseUrl"
    and "crawl env (origin baseUrl) (stripWww (hostname baseUrl)) w = Inr ((pgs, crawled), w1)"
  shows "\<exists>r w'. scoreUrl env inputUrl w = Inr (r, w') \<and>
           evaluate env (origin baseUrl) pgs crawled w1 = (r, w')"
  using assms by (cases "evaluate env (origin baseUrl) pgs crawled w1") (simp add: scoreUrl_def)

lemma concretePlatform_fields [simp]:
  "fetch (concretePlatform f) = f"
  "newURL (concretePlatform f) = URL_parse"
  "newURLbase (concretePlatform f) = URL_resolve"
  "anchorHrefs (concretePlatform f) = anchorScan"
  by (simp_all add: concretePlatform_def)

lemma URL_parse_example_com:
  "URL_parse ''https://example.com'' =
     Some \<lparr>href = ''https://example.com/'', origin = ''https://example.com'',
           hostname = ''example.com'', pathname = ''/''\<rparr>"
  by code_simp

lemma baseUrlOf_example_com:
  "baseUrlOf (concretePlatform f) ''example.com'' =
     Inr \<lparr>href = ''https://example.com/'', origin = ''https://example.com'',
          hostname = ''example.com'', pathname = ''/''\<rparr>"
  by (simp add: baseUrlOf_def URL_parse_example_com)

lemma neverUsable_silent: "neverUsable (concretePlatform silentFetch)"
  by (simp add: neverUsable_def silentFetch_def)

lemma silent_run:
  "\<exists>r w'. scoreUrl (concretePlatform silentFetch) ''example.com'' () = Inr (r, w')"
proof -
  obtain w1 where
    "crawl (concretePlatform silentFetch) ''https://example.com'' ''example.com'' ()
       = Inr (([], []), w1)"
    using crawl_neverUsable[OF neverUsable_silent] by blast
  then show ?thesis
    using scoreUrl_returns[OF baseUrlOf_example_com[of silentFetch], of "()" "[]" "[]" w1]
    by (auto simp: stripWww_def)
qed

lemma signup_searches_kyc:
  "kycIndicatorsOf ''kyc check'' = [''kyc'']"
  by code_simp

lemma signup_searches_contact:
  "kycIndicatorsOf ''contact sales'' = []"
  "contactSalesSignupOf ''contact sales'' = [''contact sales'']"
  "signupIndicatorsOf ''contact sales'' = []"
  by code_simp+

lemma signup_searches_plain:
  "kycIndicatorsOf ''sign up'' = []"
  "contactSalesSignupOf ''sign up'' = []"
  "signupIndicatorsOf ''sign up'' = [''sign up'']"
  "noHumanStepsOf ''sign up'' = []"
  by code_simp+




section \<open>Pages and crawled pages grow together\<close>

lemma Map_set_not_Nil: "Map_set pgs k v \<noteq> []"
  by (cases pgs) (auto split: if_splits)

lemma recordSeeds_both:
  "recordSeeds env orig results st = Inr st' \<Longrightarrow>
   (fst st = [] \<longleftrightarrow> snd st = []) \<Longrightarrow> (fst st' = [] \<longleftrightarrow> snd st' = [])"
  by (induction env orig results st rule: recordSeeds.induct)
     (auto simp: Map_set_not_Nil split: if_splits option.splits)

lemma recordDiscovered_both:
  "recordDiscovered env results st = Inr st' \<Longrightarrow>
   (fst st = [] \<longleftrightarrow> snd st = []) \<Longrightarrow> (fst st' = [] \<longleftrightarrow> snd st' = [])"
  by (induction env results st rule: recordDiscovered.induct)
     (auto simp: Map_set_not_Nil split: if_splits option.splits)

lemma seedLoop_both:
  "seedLoop env orig us i st w = Inr (st', w') \<Longrightarrow>
   (fst st = [] \<longleftrightarrow> snd st = []) \<Longrightarrow> (fst st' = [] \<longleftrightarrow> snd st' = [])"
proof (induction env orig us i st w rule: seedLoop.induct)
  case (1 env orig uniqueSeeds i st w)
  note unfold = seedLoop.simps[of env orig uniqueSeeds i st w]
  show ?case
  proof (cases "i < length uniqueSeeds")
    case False
    with "1.prems" show ?thesis by (simp add: unfold)
  next
    case True
    obtain results w1 where
      b: "fetchBatch env (slice uniqueSeeds (int i) (int i + int BATCH_SIZE)) w = (results, w1)"
      by (cases "fetchBatch env (slice uniqueSeeds (int i) (int i + int BATCH_SIZE)) w")
    from "1.prems"(1) True b obtain st1 where
      r: "recordSeeds env orig results st = Inr st1" and
      l: "seedLoop env orig uniqueSeeds (i + BATCH_SIZE) st1 w1 = Inr (st', w')"
      by (auto simp: unfold split: sum.splits)
    from recordSeeds_both[OF r "1.prems"(2)] "1.IH"[OF True b[symmetric] r l] show ?thesis
      by blast
  qed
qed

lemma discoveredLoop_both:
  "discoveredLoop env ud i st visited w = Inr (st', visited', w') \<Longrightarrow>
   (fst st = [] \<longleftrightarrow> snd st = []) \<Longrightarrow> (fst st' = [] \<longleftrightarrow> snd st' = [])"
proof (induction env ud i st visited w rule: discoveredLoop.induct)
  case (1 env uniqueDiscovered i st visited w)
  note unfold = discoveredLoop.simps[of env uniqueDiscovered i st visited w]
  show ?case
  proof (cases "i < length uniqueDiscovered \<and> Map_size (fst st) < MAX_CRAWL_PAGES")
    case False
    with "1.prems" show ?thesis by (auto simp: unfold)
  next
    case True
    let ?batch = "slice uniqueDiscovered (int i) (int i + int BATCH_SIZE)"
    obtain results w1 where b: "fetchBatch env ?batch w = (results, w1)"
      by (cases "fetchBatch env ?batch w")
    from "1.prems"(1) True b obtain st1 where
      r: "recordDiscovered env results st = Inr st1" and
      l: "discoveredLoop env uniqueDiscovered (i + BATCH_SIZE) st1 (visited @ ?batch) w1
            = Inr (st', visited', w')"
      by (auto simp: unfold Let_def split: sum.splits)
    from recordDiscovered_both[OF r "1.prems"(2)] "1.IH"[OF True refl b[symmetric] r l]
    show ?thesis by blast
  qed
qed

lemma crawl_both:
  assumes "crawl env orig baseDomain w = Inr ((pgs, crawled), w')"
  shows "pgs = [] \<longleftrightarrow> crawled = []"
proof -
  obtain us vis where u: "uniqueSeedsOf (map (\<lambda>p. orig @ p) SEED_PATHS @
      map (\<lambda>sub. ''https://'' @ sub @ ''.'' @ baseDomain) SUBDOMAIN_PREFIXES) [] = (us, vis)"
    by (cases "uniqueSeedsOf (map (\<lambda>p. orig @ p) SEED_PATHS @
      map (\<lambda>sub. ''https://'' @ sub @ ''.'' @ baseDomain) SUBDOMAIN_PREFIXES) []")
  from assms obtain pgs1 crawled1 w1 vis' where
    s: "seedLoop env orig us 0 ([], []) w = Inr ((pgs1, crawled1), w1)" and
    d: "discoveredLoop env
          (uniqueDiscoveredOf (discoveredUrlsOf env orig baseDomain vis pgs1) pgs1) 0
          (pgs1, crawled1) vis w1 = Inr ((pgs, crawled), vis', w')"
    unfolding crawl_def Let_def u
    by (auto split: sum.splits prod.splits)
  from seedLoop_both[OF s] have "pgs1 = [] \<longleftrightarrow> crawled1 = []" by simp
  with discoveredLoop_both[OF d] show ?thesis by simp
qed

section \<open>The rubric on an empty corpus\<close>

lemma toLowerCase_Nil: "toLowerCase [] = []"
  by (simp add: toLowerCase_def)

lemma corpus_empty: "corpusText [] = []" "corpusLinks env orig [] = []"
  by (simp_all add: corpusText_def corpusLinks_def toLowerCase_Nil)

lemmas empty_eval = Let_def textContains_def toLowerCase_Nil toLowerCase_Cons Map_has_def

lemma empty_discovery:
  "SubScore.score (disc_api [] [] []) = 0"
  "SubScore.score (disc_pricing [] []) = 0"
  "SubScore.score (disc_directories []) = 0"
  by (simp_all add: disc_api_def disc_pricing_def disc_directories_def empty_eval)

lemma empty_purchase:
  "SubScore.score (purch_signup []) = 0"
  "SubScore.score (purch_captcha []) = 2"
  "SubScore.score (purch_billing []) = 0"
  "SubScore.score (purch_crypto []) = 0"
  "SubScore.score (purch_protocols []) = 0"
  by (simp_all add: purch_signup_def purch_captcha_def purch_billing_def purch_crypto_def
      purch_protocols_def empty_eval)

lemma empty_integration:
  "SubScore.score (int_mcp []) = 0"
  "SubScore.score (int_structured []) = 0"
  "SubScore.score (int_sandbox []) = 0"
  "SubScore.score (int_ratelimits []) = 0"
  by (simp_all add: int_mcp_def int_structured_def int_sandbox_def int_ratelimits_def
      empty_eval)

lemma empty_trust:
  "SubScore.score (trust_pricing []) = 0"
  "SubScore.score (trust_spend []) = 0"
  "SubScore.score (trust_sla [] []) = 0"
  "SubScore.score (trust_tos [] []) = 0"
  by (simp_all add: trust_pricing_def trust_spend_def trust_sla_def trust_tos_def empty_eval)

lemma empty_metadata:
  assumes "disc_metadata env orig [] w = (s, w')"
  shows "SubScore.score s = 0 \<or> SubScore.score s = 2"
  using assms
  by (auto simp: disc_metadata_def empty_eval split: prod.splits if_splits
      dest!: probeOpenapi_score)

lemma empty_categories:
  "map CategoryScore.score (categoriesOf [] [] [] metadata)
     = [min 10 (SubScore.score metadata), 2, 0, 0]"
  by (simp add: categoriesOf_def sumScores_def empty_discovery empty_purchase
      empty_integration empty_trust)

lemma zero_pages_scores:
  assumes run: "scoreUrl env inputUrl w = Inr (r, w')"
  shows "(crawledPages r = [] \<longrightarrow>
            errors r = [noPagesMessage] \<and>
            (\<exists>d. (d = 0 \<or> d = 2) \<and> map CategoryScore.score (categories r) = [d, 2, 0, 0] \<and>
                 totalScore r = d + 2)) \<and>
         (errors r \<noteq> [] \<longrightarrow> crawledPages r = [])"
proof -
  from scoreUrl_evaluate[OF run] obtain baseUrl :: URL and pgs w1 where
    c: "crawl env (origin baseUrl) (stripWww (hostname baseUrl)) w
          = Inr ((pgs, crawledPages r), w1)" and
    e: "evaluate env (origin baseUrl) pgs (crawledPages r) w1 = (r, w')" by blast
  from crawl_both[OF c] have both: "pgs = [] \<longleftrightarrow> crawledPages r = []" .
  from evaluate_fields[OF e] obtain metadata w2 where
    m: "disc_metadata env (origin baseUrl) (corpusText pgs) w1 = (metadata, w2)" and
    cats: "categories r = categoriesOf pgs (corpusText pgs)
             (corpusLinks env (origin baseUrl) pgs) metadata" and
    tot: "totalScore r = totalOf (categories r)" and
    errs: "errors r = (if pgs = [] then [noPagesMessage] else [])" by blast
  have second: "errors r \<noteq> [] \<longrightarrow> crawledPages r = []"
    using errs both by (auto split: if_splits)
  have first: "crawledPages r = [] \<longrightarrow>
            errors r = [noPagesMessage] \<and>
            (\<exists>d. (d = 0 \<or> d = 2) \<and> map CategoryScore.score (categories r) = [d, 2, 0, 0] \<and>
                 totalScore r = d + 2)"
  proof
    assume "crawledPages r = []"
    with both have empty: "pgs = []" by simp
    from m empty have m': "disc_metadata env (origin baseUrl) [] w1 = (metadata, w2)"
      by (simp add: corpus_empty)
    from empty_metadata[OF m'] have d: "SubScore.score metadata = 0 \<or> SubScore.score metadata = 2" .
    then have mn: "min 10 (SubScore.score metadata) = SubScore.score metadata" by auto
    have sc: "map CategoryScore.score (categories r) = [SubScore.score metadata, 2, 0, 0]"
      using cats empty by (simp add: corpus_empty empty_categories mn)
    have "totalScore r = SubScore.score metadata + 2"
      using tot sc by (simp add: totalOf_sum_list)
    with d sc errs empty show "errors r = [noPagesMessage] \<and>
            (\<exists>d. (d = 0 \<or> d = 2) \<and> map CategoryScore.score (categories r) = [d, 2, 0, 0] \<and>
                 totalScore r = d + 2)" by auto
  qed
  from first second show ?thesis by blast
qed

lemma unusable_no_hit: "\<not> usable r \<Longrightarrow> \<not> isOpenapiHit r"
  by (auto simp: usable_def isOpenapiHit_def split: option.splits)

lemma probeOpenapi_neverUsable:
  "neverUsable env \<Longrightarrow> fst (probeOpenapi env orig ps s w) = s"
proof (induction ps arbitrary: w)
  case Nil
  then show ?case by simp
next
  case (Cons p ps)
  obtain r w1 where f: "fetchPage env (orig @ p) 3000 default_retries w = (r, w1)"
    by (cases "fetchPage env (orig @ p) 3000 default_retries w")
  from fetchPage_loop_neverUsable[OF Cons.prems, of "orig @ p" 3000 default_retries 0 w] f
  have "\<not> usable r" by (simp add: fetchPage_def)
  then have "\<not> isOpenapiHit r" by (rule unusable_no_hit)
  with f Cons.IH[OF Cons.prems, of w1] show ?case by simp
qed

lemma empty_metadata_neverUsable:
  assumes "neverUsable env" and "disc_metadata env orig [] w = (s, w')"
  shows "SubScore.score s = 0"
proof -
  let ?s0 = "newSubScore ''Structured metadata / OpenAPI spec'' 2 0 None"
  obtain s2 w2 where p: "probeOpenapi env orig OPENAPI_PATHS ?s0 w = (s2, w2)"
    by (cases "probeOpenapi env orig OPENAPI_PATHS ?s0 w")
  from probeOpenapi_neverUsable[OF assms(1), of orig OPENAPI_PATHS ?s0 w] p
  have "s2 = ?s0" by simp
  with assms(2) p show ?thesis
    by (auto simp: disc_metadata_def empty_eval split: if_splits)
qed

lemma zero_pages_neverUsable:
  assumes never: "neverUsable env" and run: "scoreUrl env inputUrl w = Inr (r, w')"
  shows "crawledPages r = [] \<and> errors r = [noPagesMessage] \<and>
         map CategoryScore.score (categories r) = [0, 2, 0, 0] \<and> totalScore r = 2"
proof -
  from scoreUrl_evaluate[OF run] obtain baseUrl :: URL and pgs w1 where
    c: "crawl env (origin baseUrl) (stripWww (hostname baseUrl)) w
          = Inr ((pgs, crawledPages r), w1)" and
    e: "evaluate env (origin baseUrl) pgs (crawledPages r) w1 = (r, w')" by blast
  from crawl_neverUsable[OF never, of "origin baseUrl" "stripWww (hostname baseUrl)" w] c
  have empty: "pgs = []" "crawledPages r = []" by auto
  from evaluate_fields[OF e] obtain metadata w2 where
    m: "disc_metadata env (origin baseUrl) (corpusText pgs) w1 = (metadata, w2)" and
    cats: "categories r = categoriesOf pgs (corpusText pgs)
             (corpusLinks env (origin baseUrl) pgs) metadata" and
    tot: "totalScore r = totalOf (categories r)" and
    errs: "errors r = (if pgs = [] then [noPagesMessage] else [])" by blast
  from m empty have "disc_metadata env (origin baseUrl) [] w1 = (metadata, w2)"
    by (simp add: corpus_empty)
  from empty_metadata_neverUsable[OF never this] have d: "SubScore.score metadata = 0" .
  have sc: "map CategoryScore.score (categories r) = [0, 2, 0, 0]"
    using cats empty d by (simp add: corpus_empty empty_categories)
  have "totalScore r = 2"
    using tot sc by (simp add: totalOf_sum_list)
  with sc errs empty show ?thesis by simp
qed



section \<open>The log of a traced run\<close>

lemma traced_fetch:
  "fetch (traced env) u t (w, log) =
     (fst (fetch env u t w), (snd (fetch env u t w), log @ [(u, t, fst (fetch env u t w))]))"
  by (simp add: traced_def split: prod.splits)

lemma fetchPage_loop_traced:
  "\<forall>log. \<exists>outs.
     fetchPage_loop (traced env) u t r a (w, log) =
       (fst (fetchPage_loop env u t r a w),
        (snd (fetchPage_loop env u t r a w), log @ map (\<lambda>out. (u, t, out)) outs)) \<and>
     length outs \<le> Suc r - a \<and>
     (\<forall>out \<in> set outs. out \<noteq> Rejected \<longrightarrow> answerOf out = fst (fetchPage_loop env u t r a w))"
proof (induction env u t r a w rule: fetchPage_loop.induct)
  case (1 env u timeout retries attempt w)
  note unfold = fetchPage_loop.simps[of env u timeout retries attempt w]
  show ?case
  proof (cases "attempt \<le> retries")
    case False
    show ?thesis
    proof
      fix log
      from False have
        "fetchPage_loop (traced env) u timeout retries attempt (w, log) = (None, (w, log))"
        by (simp add: fetchPage_loop.simps[of "traced env" u timeout retries attempt "(w, log)"])
      with False show "\<exists>outs.
         fetchPage_loop (traced env) u timeout retries attempt (w, log) =
           (fst (fetchPage_loop env u timeout retries attempt w),
            (snd (fetchPage_loop env u timeout retries attempt w),
             log @ map (\<lambda>out. (u, timeout, out)) outs)) \<and>
         length outs \<le> Suc retries - attempt \<and>
         (\<forall>out \<in> set outs. out \<noteq> Rejected \<longrightarrow>
            answerOf out = fst (fetchPage_loop env u timeout retries attempt w))"
        by (intro exI[of _ "[]"]) (simp add: unfold)
    qed
  next
    case True
    obtain out w1 where f: "fetch env u timeout w = (out, w1)"
      by (cases "fetch env u timeout w")
    show ?thesis
    proof
      fix log
      note unfoldT =
        fetchPage_loop.simps[of "traced env" u timeout retries attempt "(w, log)"]
      show "\<exists>outs.
         fetchPage_loop (traced env) u timeout retries attempt (w, log) =
           (fst (fetchPage_loop env u timeout retries attempt w),
            (snd (fetchPage_loop env u timeout retries attempt w),
             log @ map (\<lambda>out. (u, timeout, out)) outs)) \<and>
         length outs \<le> Suc retries - attempt \<and>
         (\<forall>out \<in> set outs. out \<noteq> Rejected \<longrightarrow>
            answerOf out = fst (fetchPage_loop env u timeout retries attempt w))"
      proof (cases out)
        case (Response html status)
        with True f show ?thesis
          by (intro exI[of _ "[out]"])
             (simp add: unfold unfoldT traced_fetch answerOf_def)
      next
        case Rejected
        from "1.IH"[OF True f[symmetric] Rejected]
        obtain outs where
          eq: "fetchPage_loop (traced env) u timeout retries (attempt + 1)
                 (w1, log @ [(u, timeout, Rejected)]) =
               (fst (fetchPage_loop env u timeout retries (attempt + 1) w1),
                (snd (fetchPage_loop env u timeout retries (attempt + 1) w1),
                 (log @ [(u, timeout, Rejected)]) @ map (\<lambda>out. (u, timeout, out)) outs))" and
          len: "length outs \<le> Suc retries - (attempt + 1)" and
          ans: "\<forall>out \<in> set outs. out \<noteq> Rejected \<longrightarrow>
                  answerOf out = fst (fetchPage_loop env u timeout retries (attempt + 1) w1)"
          by blast
        from True f Rejected eq len ans show ?thesis
          by (intro exI[of _ "Rejected # outs"])
             (simp add: unfold unfoldT traced_fetch)
      qed
    qed
  qed
qed

lemma fetchPage_traced:
  assumes "fetchPage (traced env) u t r (w, log) = (res, (w', log'))"
  shows "fetchPage env u t r w = (res, w') \<and>
         (\<exists>outs. log' = log @ map (\<lambda>out. (u, t, out)) outs \<and> length outs \<le> Suc r \<and>
            (\<forall>out \<in> set outs. out \<noteq> Rejected \<longrightarrow> answerOf out = res))"
proof -
  from fetchPage_loop_traced[of env u t r 0 w] obtain outs where
    "fetchPage_loop (traced env) u t r 0 (w, log) =
       (fst (fetchPage_loop env u t r 0 w),
        (snd (fetchPage_loop env u t r 0 w), log @ map (\<lambda>out. (u, t, out)) outs))"
    "length outs \<le> Suc r - 0"
    "\<forall>out \<in> set outs. out \<noteq> Rejected \<longrightarrow> answerOf out = fst (fetchPage_loop env u t r 0 w)"
    by blast
  with assms show ?thesis
    by (auto simp: fetchPage_def)
qed

lemma callsTo_append [simp]: "callsTo u (xs @ ys) = callsTo u xs + callsTo u ys"
  by (simp add: callsTo_def)

lemma callsTo_Nil [simp]: "callsTo u [] = 0"
  by (simp add: callsTo_def)

lemma callsTo_same: "callsTo v (map (\<lambda>out. (u, t, out)) outs) \<le> length outs"
  by (simp add: callsTo_def)

lemma callsTo_other: "\<forall>e \<in> set es. fst e \<noteq> u \<Longrightarrow> callsTo u es = 0"
  by (simp add: callsTo_def)

lemma answerOf_Rejected: "\<not> isOpenapiHit (answerOf Rejected)"
  by (simp add: answerOf_def isOpenapiHit_def)

lemma probeOpenapi_traced:
  assumes "probeOpenapi (traced env) orig ps s (w, log) = (s', (w', log'))"
  shows "probeOpenapi env orig ps s w = (s', w') \<and>
         (\<exists>entries. log' = log @ entries \<and>
            (\<forall>e \<in> set entries. fst (snd e) = 3000 \<and> fst e \<in> (\<lambda>p. orig @ p) ` set ps) \<and>
            (distinct ps \<longrightarrow> (\<forall>u. callsTo u entries \<le> 3)) \<and>
            ((\<exists>e \<in> set entries. isHitEntry e) \<longrightarrow> SubScore.score s' = 2))"
  using assms
proof (induction ps arbitrary: w log)
  case Nil
  then show ?case by simp
next
  case (Cons p ps)
  obtain r w1 log1 where
    f: "fetchPage (traced env) (orig @ p) 3000 default_retries (w, log) = (r, (w1, log1))"
    by (cases "fetchPage (traced env) (orig @ p) 3000 default_retries (w, log)") auto
  from fetchPage_traced[OF f] obtain outs where
    f': "fetchPage env (orig @ p) 3000 default_retries w = (r, w1)" and
    l1: "log1 = log @ map (\<lambda>out. (orig @ p, 3000, out)) outs" and
    len: "length outs \<le> 3" and
    ans: "\<forall>out \<in> set outs. out \<noteq> Rejected \<longrightarrow> answerOf out = r"
    by (auto simp: default_retries_def)
  let ?mine = "map (\<lambda>out. (orig @ p, 3000::nat, out)) outs"
  have mine_calls: "callsTo u ?mine \<le> 3" for u
    using callsTo_same[of u "orig @ p" 3000 outs] len by simp
  have mine_hit: "isHitEntry e \<Longrightarrow> isOpenapiHit r" if "e \<in> set ?mine" for e
    using that ans answerOf_Rejected by (auto simp: isHitEntry_def)
  show ?case
  proof (cases "isOpenapiHit r")
    case True
    with Cons.prems f f' l1 mine_calls show ?thesis
      by (intro conjI exI[of _ ?mine]) auto
  next
    case False
    with Cons.prems f have
      rest: "probeOpenapi (traced env) orig ps s (w1, log1) = (s', (w', log'))" by simp
    from Cons.IH[OF rest] obtain entries where
      run: "probeOpenapi env orig ps s w1 = (s', w')" and
      l': "log' = log1 @ entries" and
      shape: "\<forall>e \<in> set entries. fst (snd e) = 3000 \<and> fst e \<in> (\<lambda>p. orig @ p) ` set ps" and
      calls: "distinct ps \<longrightarrow> (\<forall>u. callsTo u entries \<le> 3)" and
      hit: "(\<exists>e \<in> set entries. isHitEntry e) \<longrightarrow> SubScore.score s' = 2" by blast
    have c: "callsTo u (?mine @ entries) \<le> 3" if d: "distinct (p # ps)" for u
    proof (cases "u = orig @ p")
      case True
      from d shape have "\<forall>e \<in> set entries. fst e \<noteq> u" using True by auto
      from callsTo_other[OF this] mine_calls[of u] show ?thesis by simp
    next
      case False
      then have "callsTo u ?mine = 0" by (intro callsTo_other) auto
      with calls d show ?thesis by simp
    qed
    have h: "SubScore.score s' = 2" if "\<exists>e \<in> set (?mine @ entries). isHitEntry e"
      using that mine_hit False hit by auto
    from False f' run l1 l' shape c h show ?thesis
      by (intro conjI exI[of _ "?mine @ entries"]) auto
  qed
qed


section \<open>Two sites, crawled\<close>

lemma sample_crawl:
  "staticCrawl (concretePlatform (staticFetch sampleSite)) sampleSite ''https://example.com''
     ''example.com''
   = Inr ([(''/'', sampleRoot), (''/docs'', ''not ours''),
           (''https://docs.example.com'', ''docs home''), (''/api/guide'', ''guide'')],
          [''https://example.com'', ''https://example.com/docs'', ''https://docs.example.com'',
           ''https://docs.example.com/api/guide'', ''https://evilexample.com/docs''])"
  by code_simp

lemma sample_crawl_run:
  "crawl (concretePlatform (staticFetch sampleSite)) ''https://example.com'' ''example.com'' ()
   = Inr (([(''/'', sampleRoot), (''/docs'', ''not ours''),
            (''https://docs.example.com'', ''docs home''), (''/api/guide'', ''guide'')],
           [''https://example.com'', ''https://example.com/docs'', ''https://docs.example.com'',
            ''https://docs.example.com/api/guide'', ''https://evilexample.com/docs'']), ())"
  by (simp add: crawl_static[of _ sampleSite] sample_crawl)

lemma docsDo_crawl:
  "crawlSizes (staticCrawl (concretePlatform (staticFetch docsDoSite)) docsDoSite
     ''https://docs.do'' ''docs.do'') = Some (30, 31)"
  by code_simp

lemma URL_parse_docs_do:
  "URL_parse ''https://docs.do'' =
     Some \<lparr>href = ''https://docs.do/'', origin = ''https://docs.do'',
           hostname = ''docs.do'', pathname = ''/''\<rparr>"
  by code_simp

lemma baseUrlOf_docs_do:
  "baseUrlOf (concretePlatform f) ''docs.do'' =
     Inr \<lparr>href = ''https://docs.do/'', origin = ''https://docs.do'',
          hostname = ''docs.do'', pathname = ''/''\<rparr>"
  by (simp add: baseUrlOf_def URL_parse_docs_do)


section \<open>The claims\<close>

text \<open>
  C1.  For every scoring run that returns a result, each of the four category scores
  equals the minimum of 10 and the sum of its sub-scores' scores and lies between 0
  and 10, and \<open>totalScore\<close> equals the sum of the four category scores and lies
  between 0 and 40.
\<close>

theorem category_and_total_scores:
  assumes "scoreUrl env inputUrl w = Inr (r, w')"
  shows "length (categories r) = 4 \<and>
         (\<forall>c \<in> set (categories r).
            CategoryScore.score c = min 10 (sum_list (map SubScore.score (subScores c))) \<and>
            0 \<le> CategoryScore.score c \<and> CategoryScore.score c \<le> 10) \<and>
         totalScore r = sum_list (map CategoryScore.score (categories r)) \<and>
         0 \<le> totalScore r \<and> totalScore r \<le> 40"
proof -
  from scoreUrl_evaluate[OF assms] obtain baseUrl :: URL and pgs w1 where
    e: "evaluate env (origin baseUrl) pgs (crawledPages r) w1 = (r, w')" by blast
  from evaluate_fields[OF e] obtain metadata w2 t l where
    m: "disc_metadata env (origin baseUrl) t w1 = (metadata, w2)" and
    cats: "categories r = categoriesOf pgs t l metadata" and
    tot: "totalScore r = totalOf (categories r)" by blast
  have mr: "inRange metadata" using m by (rule disc_metadata_range)
  note props = categoriesOf_props[OF mr, of pgs t l]
  have len: "length (categories r) = 4" using props(1) cats by simp
  have each: "\<forall>c \<in> set (categories r).
      CategoryScore.score c = min 10 (sum_list (map SubScore.score (subScores c))) \<and>
      0 \<le> CategoryScore.score c \<and> CategoryScore.score c \<le> 10"
  proof
    fix c assume c: "c \<in> set (categories r)"
    with props(2) cats have sub: "\<forall>s \<in> set (subScores c). inRange s"
      and sc: "CategoryScore.score c = min 10 (sum_list (map SubScore.score (subScores c)))"
      by auto
    have "0 \<le> sum_list (map SubScore.score (subScores c))"
      using sub by (intro sum_list_nonneg) (auto simp: inRange_def)
    with sc show "CategoryScore.score c = min 10 (sum_list (map SubScore.score (subScores c))) \<and>
      0 \<le> CategoryScore.score c \<and> CategoryScore.score c \<le> 10" by simp
  qed
  have total: "totalScore r = sum_list (map CategoryScore.score (categories r))"
    using tot by (simp add: totalOf_sum_list)
  obtain a b c d where abcd: "categories r = [a, b, c, d]"
    using len by (auto simp: length_Suc_conv numeral_eq_Suc)
  have "0 \<le> totalScore r \<and> totalScore r \<le> 40"
    using each total unfolding abcd by auto
  with len each total show ?thesis by blast
qed

theorem category_and_total_scores_witness:
  "\<exists>r w'. scoreUrl (concretePlatform silentFetch) ''example.com'' () = Inr (r, w') \<and>
     length (categories r) = 4 \<and>
     (\<forall>c \<in> set (categories r).
        CategoryScore.score c = min 10 (sum_list (map SubScore.score (subScores c))) \<and>
        0 \<le> CategoryScore.score c \<and> CategoryScore.score c \<le> 10) \<and>
     totalScore r = sum_list (map CategoryScore.score (categories r)) \<and>
     0 \<le> totalScore r \<and> totalScore r \<le> 40"
proof -
  from silent_run obtain r w' where
    run: "scoreUrl (concretePlatform silentFetch) ''example.com'' () = Inr (r, w')" by blast
  from category_and_total_scores[OF run] run show ?thesis by blast
qed

text \<open>
  C3.  The signup evaluator is asymmetric between the friction kinds.  With a KYC
  keyword in the corpus the sub-score is 1 of 2 and \<open>regulatory\<close>; with a contact-sales
  keyword, no KYC keyword and no signup-indicator keyword it is 0 of 2 and
  \<open>voluntary\<close>; with neither signal the friction type stays \<open>none\<close> and the score is
  that of the ordinary matching: 2 with a self-serve keyword, else 1 with a signup
  indicator, else 0.
\<close>

theorem signup_friction_asymmetry:
  "(kycIndicatorsOf t \<noteq> [] \<longrightarrow>
      SubScore.score (purch_signup t) = 1 \<and> SubScore.maxPoints (purch_signup t) = 2 \<and>
      frictionType (purch_signup t) = Some regulatory) \<and>
   (kycIndicatorsOf t = [] \<and> contactSalesSignupOf t \<noteq> [] \<and> signupIndicatorsOf t = [] \<longrightarrow>
      SubScore.score (purch_signup t) = 0 \<and> SubScore.maxPoints (purch_signup t) = 2 \<and>
      frictionType (purch_signup t) = Some voluntary) \<and>
   (kycIndicatorsOf t = [] \<and> \<not> (contactSalesSignupOf t \<noteq> [] \<and> signupIndicatorsOf t = []) \<longrightarrow>
      SubScore.score (purch_signup t)
        = (if noHumanStepsOf t \<noteq> [] then 2 else if signupIndicatorsOf t \<noteq> [] then 1 else 0) \<and>
      SubScore.maxPoints (purch_signup t) = 2 \<and>
      frictionType (purch_signup t) = Some none)"
  unfolding purch_signup_def kycIndicatorsOf_def contactSalesSignupOf_def
    signupIndicatorsOf_def noHumanStepsOf_def Let_def
  by simp

theorem signup_friction_asymmetry_witness:
  "kycIndicatorsOf ''kyc check'' \<noteq> [] \<and>
   SubScore.score (purch_signup ''kyc check'') = 1 \<and>
   SubScore.maxPoints (purch_signup ''kyc check'') = 2 \<and>
   frictionType (purch_signup ''kyc check'') = Some regulatory \<and>
   kycIndicatorsOf ''contact sales'' = [] \<and> contactSalesSignupOf ''contact sales'' \<noteq> [] \<and>
   signupIndicatorsOf ''contact sales'' = [] \<and>
   SubScore.score (purch_signup ''contact sales'') = 0 \<and>
   SubScore.maxPoints (purch_signup ''contact sales'') = 2 \<and>
   frictionType (purch_signup ''contact sales'') = Some voluntary \<and>
   kycIndicatorsOf ''sign up'' = [] \<and> contactSalesSignupOf ''sign up'' = [] \<and>
   SubScore.score (purch_signup ''sign up'') = 1 \<and>
   SubScore.maxPoints (purch_signup ''sign up'') = 2 \<and>
   frictionType (purch_signup ''sign up'') = Some none"
  using signup_friction_asymmetry[of "''kyc check''"]
    signup_friction_asymmetry[of "''contact sales''"]
    signup_friction_asymmetry[of "''sign up''"]
  by (simp add: signup_searches_kyc signup_searches_contact signup_searches_plain)

text \<open>
  C6.  The grade is a function of \<open>totalScore\<close> alone, with the boundaries 35, 28, 20
  and 10.
\<close>

theorem grade_boundaries:
  assumes "scoreUrl env inputUrl w = Inr (r, w')"
  shows "grade r = gradeOf (totalScore r) \<and>
         (grade r = ''A'' \<longleftrightarrow> 35 \<le> totalScore r) \<and>
         (grade r = ''B'' \<longleftrightarrow> 28 \<le> totalScore r \<and> totalScore r < 35) \<and>
         (grade r = ''C'' \<longleftrightarrow> 20 \<le> totalScore r \<and> totalScore r < 28) \<and>
         (grade r = ''D'' \<longleftrightarrow> 10 \<le> totalScore r \<and> totalScore r < 20) \<and>
         (grade r = ''F'' \<longleftrightarrow> totalScore r < 10)"
proof -
  from scoreUrl_evaluate[OF assms] obtain baseUrl :: URL and pgs w1 where
    e: "evaluate env (origin baseUrl) pgs (crawledPages r) w1 = (r, w')" by blast
  from evaluate_fields[OF e] have g: "grade r = gradeOf (totalScore r)" by blast
  show ?thesis unfolding g by (simp add: gradeOf_def)
qed

theorem grade_boundaries_witness:
  "\<exists>r w'. scoreUrl (concretePlatform silentFetch) ''example.com'' () = Inr (r, w') \<and>
     grade r = gradeOf (totalScore r) \<and>
     (grade r = ''A'' \<longleftrightarrow> 35 \<le> totalScore r) \<and>
     (grade r = ''B'' \<longleftrightarrow> 28 \<le> totalScore r \<and> totalScore r < 35) \<and>
     (grade r = ''C'' \<longleftrightarrow> 20 \<le> totalScore r \<and> totalScore r < 28) \<and>
     (grade r = ''D'' \<longleftrightarrow> 10 \<le> totalScore r \<and> totalScore r < 20) \<and>
     (grade r = ''F'' \<longleftrightarrow> totalScore r < 10)"
proof -
  from silent_run obtain r w' where
    run: "scoreUrl (concretePlatform silentFetch) ''example.com'' () = Inr (r, w')" by blast
  from grade_boundaries[OF run] run show ?thesis by blast
qed

text \<open>
  C7.  Every sub-score of a returned result, of the seventeen evaluators, has a score
  between 0 and its \<open>maxPoints\<close>.
\<close>

theorem subscores_within_bounds:
  assumes "scoreUrl env inputUrl w = Inr (r, w')"
  shows "length (concat (map subScores (categories r))) = 17 \<and>
         (\<forall>c \<in> set (categories r). \<forall>s \<in> set (subScores c).
            0 \<le> SubScore.score s \<and> SubScore.score s \<le> SubScore.maxPoints s)"
proof -
  from scoreUrl_evaluate[OF assms] obtain baseUrl :: URL and pgs w1 where
    e: "evaluate env (origin baseUrl) pgs (crawledPages r) w1 = (r, w')" by blast
  from evaluate_fields[OF e] obtain metadata w2 t l where
    m: "disc_metadata env (origin baseUrl) t w1 = (metadata, w2)" and
    cats: "categories r = categoriesOf pgs t l metadata" by blast
  have mr: "inRange metadata" using m by (rule disc_metadata_range)
  from categoriesOf_props[OF mr, of pgs t l] cats show ?thesis
    by (auto simp: inRange_def)
qed

theorem subscores_within_bounds_witness:
  "\<exists>r w'. scoreUrl (concretePlatform silentFetch) ''example.com'' () = Inr (r, w') \<and>
     length (concat (map subScores (categories r))) = 17 \<and>
     (\<forall>c \<in> set (categories r). \<forall>s \<in> set (subScores c).
        0 \<le> SubScore.score s \<and> SubScore.score s \<le> SubScore.maxPoints s)"
proof -
  from silent_run obtain r w' where
    run: "scoreUrl (concretePlatform silentFetch) ''example.com'' () = Inr (r, w')" by blast
  from subscores_within_bounds[OF run] run show ?thesis by blast
qed




text \<open>
  C4 (as the code has it).  A run whose crawl records no page returns a result and
  does not throw: when every fetch is rejected or answers with a status of 400 or more
  and the input normalizes, \<open>scoreUrl\<close> returns a result with no crawled page.  Such
  a result carries exactly the one error \<open>Could not fetch any pages from this URL\<close>,
  but its scores are not all zero: the No-CAPTCHA evaluator gives 2 on the empty
  corpus, so the Purchase category is 2; Integration and Trust are 0; Discovery is 0,
  or 2 when one of the direct OpenAPI probes answers; the total is Discovery plus 2,
  and it is 2 when every fetch fails.  Conversely the errors are non-empty only if no
  page was crawled.
\<close>

theorem zero_pages_result:
  "(\<forall>b. neverUsable env \<and> baseUrlOf env inputUrl = Inr b \<longrightarrow>
        (\<exists>r w'. scoreUrl env inputUrl w = Inr (r, w') \<and> crawledPages r = [] \<and>
                 totalScore r = 2)) \<and>
   (\<forall>r w'. scoreUrl env inputUrl w = Inr (r, w') \<longrightarrow>
        (crawledPages r = [] \<longrightarrow>
            errors r = [noPagesMessage] \<and>
            (\<exists>d. (d = 0 \<or> d = 2) \<and>
                 map CategoryScore.score (categories r) = [d, 2, 0, 0] \<and>
                 totalScore r = d + 2)) \<and>
        (errors r \<noteq> [] \<longrightarrow> crawledPages r = []))"
proof (intro conjI allI impI)
  fix b :: URL
  assume a: "neverUsable env \<and> baseUrlOf env inputUrl = Inr b"
  then obtain w1 where
    "crawl env (origin b) (stripWww (hostname b)) w = Inr (([], []), w1)"
    using crawl_neverUsable[of env "origin b" "stripWww (hostname b)" w] by blast
  from scoreUrl_returns[OF conjunct2[OF a] this] obtain r w' where
    run: "scoreUrl env inputUrl w = Inr (r, w')" by blast
  from zero_pages_neverUsable[OF conjunct1[OF a] run] run
  show "\<exists>r w'. scoreUrl env inputUrl w = Inr (r, w') \<and> crawledPages r = [] \<and>
                 totalScore r = 2" by blast
next
  fix r w'
  assume run: "scoreUrl env inputUrl w = Inr (r, w')" and "crawledPages r = []"
  with zero_pages_scores[OF run]
  show "errors r = [noPagesMessage]"
    and "\<exists>d. (d = 0 \<or> d = 2) \<and>
                 map CategoryScore.score (categories r) = [d, 2, 0, 0] \<and>
                 totalScore r = d + 2" by blast+
next
  fix r w'
  assume run: "scoreUrl env inputUrl w = Inr (r, w')" and "errors r \<noteq> []"
  with zero_pages_scores[OF run] show "crawledPages r = []" by blast
qed

theorem zero_pages_result_witness:
  "\<exists>r w'. scoreUrl (concretePlatform silentFetch) ''example.com'' () = Inr (r, w') \<and>
     crawledPages r = [] \<and> errors r = [noPagesMessage] \<and> errors r \<noteq> [] \<and>
     map CategoryScore.score (categories r) = [0, 2, 0, 0] \<and> totalScore r = 2"
proof -
  note inst = zero_pages_result[of "concretePlatform silentFetch" "''example.com''" "()"]
  from inst neverUsable_silent baseUrlOf_example_com[of silentFetch] obtain r w' where
    run: "scoreUrl (concretePlatform silentFetch) ''example.com'' () = Inr (r, w')" and
    none: "crawledPages r = []" and two: "totalScore r = 2" by blast
  from inst run none have
    errs: "errors r = [noPagesMessage]" and
    "\<exists>d. (d = 0 \<or> d = 2) \<and> map CategoryScore.score (categories r) = [d, 2, 0, 0] \<and>
         totalScore r = d + 2" by blast+
  with two have "map CategoryScore.score (categories r) = [0, 2, 0, 0]" by auto
  with run none errs two show ?thesis by auto
qed

theorem zero_pages_counterexample:
  "runSummary (scoreUrl (concretePlatform silentFetch) ''example.com'' ())
     = Some ([], [noPagesMessage], 2, [0, 2, 0, 0])"
proof -
  from silent_run obtain r w' where
    run: "scoreUrl (concretePlatform silentFetch) ''example.com'' () = Inr (r, w')" by blast
  from zero_pages_neverUsable[OF neverUsable_silent run] run show ?thesis
    by (simp add: runSummary_def)
qed

text \<open>
  C8 (as the code has it).  The direct fetches for a machine-readable spec go to the
  four locations under the origin, each with a timeout of 3000 ms and with
  \<open>fetchPage\<close>'s default of two retries, that is up to three calls of \<open>fetch\<close> for one
  location; the sub-score has 2 points at most; and a call that answers with status
  200 and a body that contains \<open>"openapi"\<close> sets the sub-score to 2.  The statement
  reads the calls from the log of the traced platform, whose run gives the sub-score
  of the platform itself.
\<close>

theorem openapi_probes:
  assumes "disc_metadata (traced env) orig allText (w, []) = (s, (w', log))"
  shows "disc_metadata env orig allText w = (s, w') \<and> SubScore.maxPoints s = 2 \<and>
         (\<forall>e \<in> set log. fst (snd e) = 3000 \<and> fst e \<in> (\<lambda>p. orig @ p) ` set OPENAPI_PATHS) \<and>
         (\<forall>u. callsTo u log \<le> 3) \<and>
         ((\<exists>e \<in> set log. isHitEntry e) \<longrightarrow> SubScore.score s = 2)"
proof -
  define s1 where "s1 =
    (let s0 = newSubScore ''Structured metadata / OpenAPI spec'' 2 0 None;
         openapiIndicators = textContains allText
            [''openapi'', ''swagger'', ''api-spec'', ''openapi.json'', ''openapi.yaml'',
             ''swagger.json'', ''swagger.yaml'', ''redoc'']
     in if openapiIndicators \<noteq> []
        then push (''OpenAPI/Swagger indicators: '' @ join '', '' openapiIndicators)
               (setScore 2 s0)
        else s0)"
  have m1: "SubScore.maxPoints s1 = 2" by (simp add: s1_def Let_def)
  obtain s2 w2 log2 where
    p: "probeOpenapi (traced env) orig OPENAPI_PATHS s1 (w, []) = (s2, (w2, log2))"
    by (cases "probeOpenapi (traced env) orig OPENAPI_PATHS s1 (w, [])") auto
  from assms p have
    s: "s = (if SubScore.score s2 = 0 then push ''No OpenAPI/Swagger spec detected'' s2 else s2)"
    and w: "w' = w2" and l: "log = log2"
    by (auto simp: disc_metadata_def s1_def Let_def split: if_splits)
  have d: "distinct OPENAPI_PATHS" by (simp add: OPENAPI_PATHS_def)
  from probeOpenapi_traced[OF p] d have
    run: "probeOpenapi env orig OPENAPI_PATHS s1 w = (s2, w2)" and
    shape: "\<forall>e \<in> set log2. fst (snd e) = 3000 \<and> fst e \<in> (\<lambda>p. orig @ p) ` set OPENAPI_PATHS" and
    calls: "\<forall>u. callsTo u log2 \<le> 3" and
    hit: "(\<exists>e \<in> set log2. isHitEntry e) \<longrightarrow> SubScore.score s2 = 2" by auto
  from probeOpenapi_score[OF run] m1 have m2: "SubScore.maxPoints s2 = 2" by simp
  have "disc_metadata env orig allText w = (s, w')"
    using run s w by (simp add: disc_metadata_def s1_def Let_def)
  moreover have "SubScore.maxPoints s = 2" using s m2 by simp
  moreover have "(\<exists>e \<in> set log. isHitEntry e) \<longrightarrow> SubScore.score s = 2"
    using hit s l by auto
  ultimately show ?thesis using shape calls l by blast
qed

theorem openapi_probes_witness:
  "\<exists>s w' log.
     disc_metadata (traced (concretePlatform (staticFetch specSite))) ''https://example.com'' []
       ((), []) = (s, (w', log)) \<and>
     length log = 4 \<and> isHitEntry (last log) \<and>
     callsTo ''https://example.com/openapi.json'' log = 3 \<and>
     fst (snd (last log)) = 3000 \<and> fst (last log) = ''https://example.com/swagger.json'' \<and>
     SubScore.score s = 2 \<and> SubScore.maxPoints s = 2"
proof -
  let ?run = "disc_metadata (traced (concretePlatform (staticFetch specSite)))
                ''https://example.com'' [] ((), [])"
  obtain s w' log where run: "?run = (s, (w', log))"
    by (cases ?run) auto
  have "length (snd (snd ?run)) = 4" by code_simp
  with run have len: "length log = 4" by simp
  have "isHitEntry (last (snd (snd ?run)))" by code_simp
  with run have hit: "isHitEntry (last log)" by simp
  have "callsTo ''https://example.com/openapi.json'' (snd (snd ?run)) = 3" by code_simp
  with run have calls: "callsTo ''https://example.com/openapi.json'' log = 3" by simp
  have "fst (last (snd (snd ?run))) = ''https://example.com/swagger.json''" by code_simp
  with run have at: "fst (last log) = ''https://example.com/swagger.json''" by simp
  from len have mem: "last log \<in> set log" by (cases log) auto
  from openapi_probes[OF run] mem hit have
    "SubScore.maxPoints s = 2" "fst (snd (last log)) = 3000" "SubScore.score s = 2"
    by blast+
  with run len hit calls at show ?thesis by blast
qed

theorem openapi_probes_counterexample:
  "snd (snd (disc_metadata (traced (concretePlatform silentFetch)) ''https://example.com'' []
       ((), [])))
     = [(''https://example.com/openapi.json'', 3000, Rejected),
        (''https://example.com/openapi.json'', 3000, Rejected),
        (''https://example.com/openapi.json'', 3000, Rejected),
        (''https://example.com/swagger.json'', 3000, Rejected),
        (''https://example.com/swagger.json'', 3000, Rejected),
        (''https://example.com/swagger.json'', 3000, Rejected),
        (''https://example.com/api-docs/swagger.json'', 3000, Rejected),
        (''https://example.com/api-docs/swagger.json'', 3000, Rejected),
        (''https://example.com/api-docs/swagger.json'', 3000, Rejected),
        (''https://example.com/.well-known/openapi.json'', 3000, Rejected),
        (''https://example.com/.well-known/openapi.json'', 3000, Rejected),
        (''https://example.com/.well-known/openapi.json'', 3000, Rejected)]"
  by code_simp

text \<open>
  C2.  The bound of 30 crawled pages fails on the host \<open>docs.do\<close>.  The subdomain seed
  \<open>https://docs.docs.do\<close> starts with the origin \<open>https://docs.do\<close>, so Phase 1 files it
  under its path \<open>/\<close>, where the home page already is.  When every URL answers, Phase 1
  ends with 28 crawled pages on 27 keys; Phase 3 then takes 30 - 27 = 3 discovered
  pages, and the run returns 31 crawled pages on 30 keys.
\<close>

theorem crawl_exceeds_cap:
  "crawledCount (scoreUrl (concretePlatform (staticFetch docsDoSite)) ''docs.do'' ()) = Some 31 \<and>
   crawlSizes (staticCrawl (concretePlatform (staticFetch docsDoSite)) docsDoSite
     ''https://docs.do'' ''docs.do'') = Some (30, 31) \<and>
   MAX_CRAWL_PAGES = 30"
proof -
  let ?env = "concretePlatform (staticFetch docsDoSite)"
  from docsDo_crawl obtain pgs crawled where
    st: "staticCrawl ?env docsDoSite ''https://docs.do'' ''docs.do'' = Inr (pgs, crawled)" and
    len: "length crawled = 31"
    by (auto simp: crawlSizes_def split: sum.splits)
  have c: "crawl ?env ''https://docs.do'' ''docs.do'' () = Inr ((pgs, crawled), ())"
    by (simp add: crawl_static[of _ docsDoSite] st)
  from scoreUrl_returns[OF baseUrlOf_docs_do[of "staticFetch docsDoSite"], of "()" pgs crawled "()"] c
  obtain r w' where
    run: "scoreUrl ?env ''docs.do'' () = Inr (r, w')" and
    e: "evaluate ?env ''https://docs.do'' pgs crawled () = (r, w')"
    by (auto simp: stripWww_def)
  from evaluate_fields[OF e] have "crawledPages r = crawled" by blast
  with run len have "crawledCount (scoreUrl ?env ''docs.do'' ()) = Some 31"
    by (simp add: crawledCount_def)
  with docsDo_crawl show ?thesis by (simp add: MAX_CRAWL_PAGES_def)
qed

text \<open>
  C9.  Phase 3 keys every page by its path, whatever its host.  On the sample site
  (input \<open>example.com\<close>, origin \<open>https://example.com\<close>) the seed \<open>https://docs.example.com\<close>
  of Phase 1 is recorded under its full URL, but the discovered page
  \<open>https://docs.example.com/api/guide\<close> of the same subdomain is recorded under
  \<open>/api/guide\<close>, and the discovered page \<open>https://evilexample.com/docs\<close> is recorded
  under \<open>/docs\<close>, where it replaces the body of the site's own \<open>/docs\<close> page.
\<close>

theorem discovered_pages_keyed_by_path:
  "crawl (concretePlatform (staticFetch sampleSite)) ''https://example.com'' ''example.com'' ()
   = Inr (([(''/'', sampleRoot), (''/docs'', ''not ours''),
            (''https://docs.example.com'', ''docs home''), (''/api/guide'', ''guide'')],
           [''https://example.com'', ''https://example.com/docs'', ''https://docs.example.com'',
            ''https://docs.example.com/api/guide'', ''https://evilexample.com/docs'']), ()) \<and>
   sampleSite ''https://example.com/docs'' = Some (''our docs'', 200) \<and>
   baseUrlOf (concretePlatform (staticFetch sampleSite)) ''example.com'' =
     Inr \<lparr>href = ''https://example.com/'', origin = ''https://example.com'',
          hostname = ''example.com'', pathname = ''/''\<rparr>"
  by (simp add: sample_crawl_run baseUrlOf_example_com sampleSite_def)

text \<open>
  C10.  The same-site test of Phase 2 is a suffix test on the host name without its
  \<open>www.\<close>: with the base domain \<open>example.com\<close>, the link \<open>https://evilexample.com/docs\<close>
  passes the filter, although its host is neither \<open>example.com\<close> nor ends with
  \<open>.example.com\<close>; on the sample site, whose home page carries this link, the run
  crawls it.
\<close>

theorem suffix_test_admits_other_site:
  "discoverLink (concretePlatform (staticFetch sampleSite)) ''example.com'' []
     ''https://evilexample.com/docs'' = Some ''https://evilexample.com/docs'' \<and>
   map_option hostname
     (newURL (concretePlatform (staticFetch sampleSite)) ''https://evilexample.com/docs'')
     = Some ''evilexample.com'' \<and>
   ''evilexample.com'' \<noteq> ''example.com'' \<and>
   \<not> endsWith ''evilexample.com'' ''.example.com'' \<and>
   endsWith ''evilexample.com'' ''example.com'' \<and>
   ''https://evilexample.com/docs'' \<in> set (crawledOf
      (crawl (concretePlatform (staticFetch sampleSite)) ''https://example.com''
         ''example.com'' ()))"
proof (intro conjI)
  show "discoverLink (concretePlatform (staticFetch sampleSite)) ''example.com'' []
     ''https://evilexample.com/docs'' = Some ''https://evilexample.com/docs''"
    by code_simp
  show "map_option hostname
     (newURL (concretePlatform (staticFetch sampleSite)) ''https://evilexample.com/docs'')
     = Some ''evilexample.com''"
    by code_simp
  show "''evilexample.com'' \<noteq> ''example.com''" by simp
  show "\<not> endsWith ''evilexample.com'' ''.example.com''" by code_simp
  show "endsWith ''evilexample.com'' ''example.com''" by code_simp
  show "''https://evilexample.com/docs'' \<in> set (crawledOf
      (crawl (concretePlatform (staticFetch sampleSite)) ''https://example.com''
         ''example.com'' ()))"
    by (simp add: sample_crawl_run crawledOf_def)
qed

end
